theory Spec2Isabelle
  imports Complex_Main "HOL-Library.Word"
begin

section \<open>pg\_squeeze: basic PostgreSQL types\<close>

text \<open>
  The development models \<^verbatim>\<open>pg_squeeze.c\<close> as it is compiled for production:
  \<^verbatim>\<open>Assert(...)\<close> expands to nothing unless PostgreSQL is configured with
  \<^verbatim>\<open>--enable-cassert\<close>, so assertions are quoted in the comments next to the place they
  stand and are not branches of the model. \<^verbatim>\<open>ereport(ERROR, ...)\<close> and
  \<^verbatim>\<open>elog(ERROR, ...)\<close> leave the function at once: they are the \<open>Inl\<close> results.
\<close>

text \<open>\<^verbatim>\<open>Oid\<close> is \<^verbatim>\<open>unsigned int\<close>, \<^verbatim>\<open>TransactionId\<close> is \<^verbatim>\<open>uint32\<close>.\<close>

type_synonym Oid = "32 word"

definition InvalidOid :: Oid where
  "InvalidOid = 0"

definition OidIsValid :: "Oid \<Rightarrow> bool" where
  "OidIsValid objectId = (objectId \<noteq> InvalidOid)"

type_synonym TransactionId = "32 word"

definition TransactionIdEquals :: "TransactionId \<Rightarrow> TransactionId \<Rightarrow> bool" where
  "TransactionIdEquals id1 id2 = (id1 = id2)"

text \<open>The lock modes of \<^verbatim>\<open>storage/lockdefs.h\<close>, weakest first (the C values 0 to 8).\<close>

datatype LOCKMODE =
    NoLock
  | AccessShareLock
  | RowShareLock
  | RowExclusiveLock
  | ShareUpdateExclusiveLock
  | ShareLock
  | ShareRowExclusiveLock
  | ExclusiveLock
  | AccessExclusiveLock

text \<open>The SQLSTATE classes named by the \<^verbatim>\<open>errcode(...)\<close> calls of the file;
  \<^verbatim>\<open>elog(ERROR, ...)\<close> reports \<open>ERRCODE_INTERNAL_ERROR\<close>.\<close>

datatype sqlstate =
    ERRCODE_NULL_VALUE_NOT_ALLOWED
  | ERRCODE_OBJECT_NOT_IN_PREREQUISITE_STATE
  | ERRCODE_UNIQUE_VIOLATION
  | ERRCODE_WRONG_OBJECT_TYPE
  | ERRCODE_INSUFFICIENT_PRIVILEGE
  | ERRCODE_OBJECT_IN_USE
  | ERRCODE_UNDEFINED_TABLE
  | ERRCODE_UNDEFINED_OBJECT
  | ERRCODE_DUPLICATE_OBJECT
  | ERRCODE_CONFIGURATION_LIMIT_EXCEEDED
  | ERRCODE_DATATYPE_MISMATCH
  | ERRCODE_INVALID_PARAMETER_VALUE
  | ERRCODE_INTERNAL_ERROR

text \<open>An error is its SQLSTATE and its message (format string). \<open>Crash\<close> stands for the
  places where the production build has undefined behaviour: it dereferences a null
  pointer or writes past the end of an array (the assertion that guards the place is
  compiled out).\<close>

datatype error = Error sqlstate string | Crash string

section \<open>The catalog, as the fingerprint functions read it\<close>

text \<open>One row of \<^verbatim>\<open>pg_class\<close> with the columns the file reads, and the \<open>xmin\<close> of the
  tuple header (\<^verbatim>\<open>HeapTupleHeaderGetXmin\<close>).\<close>

record pg_class_tuple =
  class_xmin :: TransactionId
  relname :: string
  relnamespace :: Oid
  reltablespace :: Oid
  relfilenode :: Oid
  reltoastrelid :: Oid
  relowner :: Oid
  relkind :: char
  relpersistence :: char
  relisshared :: bool
  relnatts :: nat
  relreplident :: char

record pg_index_tuple =
  index_xmin :: TransactionId
  indexrelid :: Oid
  indrelid :: Oid
  indisvalid :: bool
  indisready :: bool
  indislive :: bool

record pg_attribute_tuple =
  att_xmin :: TransactionId
  attrelid :: Oid
  attnum :: int

text \<open>\<^verbatim>\<open>pg_class\<close> has a unique index on the OID, so it is a map; the scans of
  \<^verbatim>\<open>pg_index\<close> and \<^verbatim>\<open>pg_attribute\<close> return several rows, so they are lists (in the
  order of the heap).\<close>

record catalog =
  pg_class :: "Oid \<rightharpoonup> pg_class_tuple"
  pg_index :: "pg_index_tuple list"
  pg_attribute :: "pg_attribute_tuple list"

text \<open>\<^verbatim>\<open>IndexCatInfo\<close> and \<^verbatim>\<open>CatalogState\<close> are declared in \<^verbatim>\<open>pg_squeeze.h\<close>; the fields
  are the ones this file reads and writes. The fields of \<^verbatim>\<open>IndexCatInfo\<close> carry the prefix
  \<open>ind_\<close> here (\<^verbatim>\<open>oid\<close>, \<^verbatim>\<open>xmin\<close>, \<^verbatim>\<open>pg_class_xmin\<close>, \<^verbatim>\<open>relname\<close>, \<^verbatim>\<open>reltablespace\<close>).\<close>

record IndexCatInfo =
  ind_oid :: Oid
  ind_xmin :: TransactionId
  ind_pg_class_xmin :: TransactionId
  ind_relname :: string
  ind_reltablespace :: Oid

text \<open>An array of transaction ids is a list of cells: \<open>None\<close> is a slot that
  \<^verbatim>\<open>palloc\<close> returned and nobody wrote. \<open>attr_xmins = None\<close> is the null pointer.\<close>

record CatalogState =
  relid :: Oid
  form_class :: pg_class_tuple
  pg_class_xmin :: TransactionId
  toast_xmin :: TransactionId
  relninds :: nat
  indexes :: "IndexCatInfo list"
  invalid_index :: bool
  attr_xmins :: "TransactionId option list option"

subsection \<open>get\_attribute\_xmins\<close>

text \<open>The scan uses \<^verbatim>\<open>AttributeRelidNumIndexId\<close> with the keys \<^verbatim>\<open>attrelid = relid\<close> and
  \<^verbatim>\<open>attnum > 0\<close>: the rows come in the order of \<^verbatim>\<open>attnum\<close>.\<close>

definition scan_pg_attribute :: "catalog \<Rightarrow> Oid \<Rightarrow> pg_attribute_tuple list" where
  "scan_pg_attribute cat rel =
     sort_key attnum (filter (\<lambda>t. attrelid t = rel \<and> 0 < attnum t) (pg_attribute cat))"

text \<open>The loop body: \<^verbatim>\<open>i = form->attnum - 1; if (n++ > relnatts) elog(ERROR, ...);
  result[i] = xmin\<close>. \<^verbatim>\<open>Assert(i == n)\<close> is compiled out. The array has \<open>relnatts\<close>
  slots, so the test lets the row number \<open>relnatts\<close> through: a write at
  \<open>i \<ge> relnatts\<close> is past the end of the array.\<close>

fun attribute_xmins_loop ::
  "nat \<Rightarrow> pg_attribute_tuple list \<Rightarrow> nat \<Rightarrow> TransactionId option list
    \<Rightarrow> error + TransactionId option list" where
  "attribute_xmins_loop natts [] n result = Inr result"
| "attribute_xmins_loop natts (t # ts) n result =
     (if natts < n then Inl (Error ERRCODE_INTERNAL_ERROR ''Relation %u has too many attributes'')
      else if length result \<le> nat (attnum t - 1)
      then Inl (Crash ''get_attribute_xmins: write past the end of result'')
      else attribute_xmins_loop natts ts (Suc n)
             (result[nat (attnum t - 1) := Some (att_xmin t)]))"

definition get_attribute_xmins ::
  "catalog \<Rightarrow> Oid \<Rightarrow> nat \<Rightarrow> error + TransactionId option list" where
  "get_attribute_xmins cat rel natts =
     attribute_xmins_loop natts (scan_pg_attribute cat rel) 0 (replicate natts None)"

subsection \<open>get\_index\_info\<close>

text \<open>First scan, over \<^verbatim>\<open>pg_index\<close> by \<^verbatim>\<open>indrelid\<close>: stop at the first index that is not
  valid, ready and live; otherwise append \<open>(oid, xmin)\<close>. The three other fields of a new
  entry are not written by this loop (they are given the value 0 / empty here and are
  read by no caller before the second scan sets them).\<close>

definition new_index_entry :: "pg_index_tuple \<Rightarrow> IndexCatInfo" where
  "new_index_entry form =
     \<lparr>ind_oid = indexrelid form, ind_xmin = index_xmin form, ind_pg_class_xmin = 0,
      ind_relname = [], ind_reltablespace = InvalidOid\<rparr>"

fun index_scan_loop ::
  "pg_index_tuple list \<Rightarrow> IndexCatInfo list \<Rightarrow> bool \<times> IndexCatInfo list" where
  "index_scan_loop [] result = (False, result)"
| "index_scan_loop (form # rest) result =
     (if \<not> indisvalid form \<or> \<not> indisready form \<or> \<not> indislive form then (True, result)
      else index_scan_loop rest (result @ [new_index_entry form]))"

text \<open>Second scan, over \<^verbatim>\<open>pg_class\<close> with \<^verbatim>\<open>SK_SEARCHARRAY\<close> on the sorted OIDs: the
  B-tree returns the existing rows in the order of the OIDs, each once.\<close>

definition scan_pg_class_array :: "catalog \<Rightarrow> Oid list \<Rightarrow> pg_class_tuple list" where
  "scan_pg_class_array cat oids = List.map_filter (pg_class cat) (remdups oids)"

text \<open>The loop body: \<^verbatim>\<open>if (i == n) { mismatch = true; break; } res_item = &result[i++];\<close>
  and the three assignments. The result is \<open>(mismatch, i, result)\<close>.\<close>

fun class_scan_loop ::
  "pg_class_tuple list \<Rightarrow> nat \<Rightarrow> IndexCatInfo list \<Rightarrow> bool \<times> nat \<times> IndexCatInfo list" where
  "class_scan_loop [] i result = (False, i, result)"
| "class_scan_loop (form # rest) i result =
     (if i = length result then (True, i, result)
      else class_scan_loop rest (Suc i)
             (result[i := (result ! i)\<lparr>ind_pg_class_xmin := class_xmin form,
                                       ind_relname := relname form,
                                       ind_reltablespace := reltablespace form\<rparr>]))"

text \<open>The result is \<open>(found_invalid, relninds, result)\<close>; \<open>relninds = None\<close> when the
  function returns before \<^verbatim>\<open>*relninds = n\<close>. \<^verbatim>\<open>qsort\<close> by OID is \<open>sort_key\<close>.\<close>

definition get_index_info ::
  "catalog \<Rightarrow> Oid \<Rightarrow> bool \<Rightarrow> error + (bool \<times> nat option \<times> IndexCatInfo list)" where
  "get_index_info cat rel invalid_check_only =
     (case index_scan_loop (filter (\<lambda>t. indrelid t = rel) (pg_index cat)) [] of
        (found_invalid, result) \<Rightarrow>
          if found_invalid then Inr (True, None, result)
          else if invalid_check_only then Inr (False, None, result)
          else
            let sorted_result = sort_key ind_oid result; n = length sorted_result in
            if n = 0 then Inr (False, Some n, sorted_result)
            else
              (case class_scan_loop (scan_pg_class_array cat (map ind_oid sorted_result)) 0
                      sorted_result of
                 (mismatch, i, result') \<Rightarrow>
                   if mismatch \<or> i < n
                   then Inl (Error ERRCODE_OBJECT_IN_USE ''Concurrent change of index detected'')
                   else Inr (False, Some n, result')))"

subsection \<open>get\_catalog\_state\<close>

text \<open>\<^verbatim>\<open>palloc0\<close> zeroes the result, so the fields that are not assigned are 0, false or
  null. A missing \<^verbatim>\<open>pg_class\<close> row of the relation or of its TOAST relation is dereferenced
  (\<^verbatim>\<open>Assert(HeapTupleIsValid(tuple))\<close> is compiled out).\<close>

definition get_catalog_state :: "catalog \<Rightarrow> Oid \<Rightarrow> error + CatalogState" where
  "get_catalog_state cat rel =
     (case pg_class cat rel of
        None \<Rightarrow> Inl (Crash ''get_catalog_state: no pg_class tuple'')
      | Some form \<Rightarrow>
          if relfilenode form = InvalidOid
          then Inl (Error ERRCODE_WRONG_OBJECT_TYPE ''Mapped relation cannot be squeezed'')
          else
            (case (if reltoastrelid form \<noteq> InvalidOid
                   then (case pg_class cat (reltoastrelid form) of
                           None \<Rightarrow> Inl (Crash ''get_catalog_state: no pg_class tuple of TOAST'')
                         | Some tuple_toast \<Rightarrow> Inr (class_xmin tuple_toast))
                   else Inr 0) of
               Inl e \<Rightarrow> Inl e
             | Inr txmin \<Rightarrow>
                 (case get_index_info cat rel False of
                    Inl e \<Rightarrow> Inl e
                  | Inr (found_invalid, ninds, inds) \<Rightarrow>
                      let result = \<lparr>relid = rel, form_class = form,
                                    pg_class_xmin = class_xmin form, toast_xmin = txmin,
                                    relninds = (case ninds of None \<Rightarrow> 0 | Some n \<Rightarrow> n),
                                    indexes = inds, invalid_index = found_invalid,
                                    attr_xmins = None\<rparr>
                      in if found_invalid then Inr result
                         else if 0 < relnatts form
                         then (case get_attribute_xmins cat rel (relnatts form) of
                                 Inl e \<Rightarrow> Inl e
                               | Inr xs \<Rightarrow> Inr (result\<lparr>attr_xmins := Some xs\<rparr>))
                         else Inr result)))"

subsection \<open>check\_catalog\_changes\<close>

definition check_pg_class_changes ::
  "catalog \<Rightarrow> Oid \<Rightarrow> TransactionId \<Rightarrow> LOCKMODE \<Rightarrow> error + unit" where
  "check_pg_class_changes cat rel xmin lock_held =
     (case pg_class cat rel of
        None \<Rightarrow> Inl (Error ERRCODE_UNDEFINED_TABLE ''Table no longer exists'')
      | Some pg_class_tuple \<Rightarrow>
          if \<not> TransactionIdEquals (class_xmin pg_class_tuple) xmin
          then Inl (Error ERRCODE_OBJECT_IN_USE
                      ''Incompatible DDL or heap rewrite performed concurrently'')
          else Inr ())"

text \<open>Reading slot \<open>i\<close> of an array of transaction ids. Outside the array, or in a
  slot nobody wrote, the C code reads bytes this model does not know: the cell is
  \<open>None\<close>, and a comparison with such a cell counts as a mismatch.\<close>

definition xid_at :: "TransactionId option list \<Rightarrow> nat \<Rightarrow> TransactionId option" where
  "xid_at xs i = (if i < length xs then xs ! i else None)"

definition xid_cells_equal :: "TransactionId option \<Rightarrow> TransactionId option \<Rightarrow> bool" where
  "xid_cells_equal a b =
     (case a of None \<Rightarrow> False
      | Some x \<Rightarrow> (case b of None \<Rightarrow> False | Some y \<Rightarrow> TransactionIdEquals x y))"

text \<open>\<^verbatim>\<open>Assert(attrs == NULL)\<close> guards only the case \<open>relnatts = 0\<close>. With
  \<open>relnatts > 0\<close> the loop reads \<^verbatim>\<open>attrs[0]\<close> right after \<^verbatim>\<open>get_attribute_xmins\<close> has
  returned: through a null pointer when the saved state has no array.\<close>

definition check_attribute_changes ::
  "catalog \<Rightarrow> Oid \<Rightarrow> TransactionId option list option \<Rightarrow> nat \<Rightarrow> error + unit" where
  "check_attribute_changes cat rel attrs natts =
     (if natts = 0 then Inr ()
      else
        (case get_attribute_xmins cat rel natts of
           Inl e \<Rightarrow> Inl e
         | Inr attrs_new \<Rightarrow>
             (case attrs of
                None \<Rightarrow> Inl (Crash ''check_attribute_changes: attrs is a null pointer'')
              | Some xs \<Rightarrow>
                  if list_all (\<lambda>i. xid_cells_equal (xid_at xs i) (xid_at attrs_new i))
                       [0..<natts]
                  then Inr ()
                  else Inl (Error ERRCODE_OBJECT_IN_USE
                              ''Table definition changed concurrently''))))"

text \<open>The comparison of one saved index entry with the fresh one at the same position:
  the OID and the two \<open>xmin\<close> tokens. A position outside either array is a mismatch.\<close>

definition index_entry_unchanged :: "IndexCatInfo list \<Rightarrow> IndexCatInfo list \<Rightarrow> nat \<Rightarrow> bool" where
  "index_entry_unchanged inds inds_new i =
     (i < length inds \<and> i < length inds_new \<and>
      ind_oid (inds ! i) = ind_oid (inds_new ! i) \<and>
      TransactionIdEquals (ind_xmin (inds ! i)) (ind_xmin (inds_new ! i)) \<and>
      TransactionIdEquals (ind_pg_class_xmin (inds ! i)) (ind_pg_class_xmin (inds_new ! i)))"

definition check_index_changes ::
  "catalog \<Rightarrow> Oid \<Rightarrow> IndexCatInfo list \<Rightarrow> nat \<Rightarrow> error + unit" where
  "check_index_changes cat rel inds ninds =
     (if ninds = 0 then Inr ()
      else
        (case get_index_info cat rel False of
           Inl e \<Rightarrow> Inl e
         | Inr (found_invalid, ninds_new, inds_new) \<Rightarrow>
             if found_invalid \<or> ninds_new \<noteq> Some ninds \<or>
                \<not> list_all (index_entry_unchanged inds inds_new) [0..<ninds]
             then Inl (Error ERRCODE_OBJECT_IN_USE ''Concurrent change of index detected'')
             else Inr ()))"

definition check_catalog_changes :: "catalog \<Rightarrow> CatalogState \<Rightarrow> LOCKMODE \<Rightarrow> error + unit" where
  "check_catalog_changes cat state lock_held =
     (if lock_held = AccessExclusiveLock then Inr ()
      else
        (case check_pg_class_changes cat (relid state) (pg_class_xmin state) lock_held of
           Inl e \<Rightarrow> Inl e
         | Inr _ \<Rightarrow>
             (case (if OidIsValid (reltoastrelid (form_class state))
                    then check_pg_class_changes cat (reltoastrelid (form_class state))
                           (toast_xmin state) NoLock
                    else Inr ()) of
                Inl e \<Rightarrow> Inl e
              | Inr _ \<Rightarrow>
                  (case check_index_changes cat (relid state) (indexes state)
                          (relninds state) of
                     Inl e \<Rightarrow> Inl e
                   | Inr _ \<Rightarrow>
                       check_attribute_changes cat (relid state) (attr_xmins state)
                         (relnatts (form_class state))))))"

section \<open>The fingerprint of a relation, read off the catalog\<close>













text \<open>The three assignments of the second scan of \<^verbatim>\<open>get_index_info\<close>, as a function of
  the entry and the \<^verbatim>\<open>pg_class\<close> row (used to state what the scan returns).\<close>

definition with_class_fields :: "IndexCatInfo \<Rightarrow> pg_class_tuple \<Rightarrow> IndexCatInfo" where
  "with_class_fields ic form =
     ic\<lparr>ind_pg_class_xmin := class_xmin form, ind_relname := relname form,
        ind_reltablespace := reltablespace form\<rparr>"

section \<open>The session: calls to PostgreSQL, the environment, errors\<close>

record timeval =
  tv_sec :: int
  tv_usec :: int

text \<open>The calls that change something outside the function: locks, the decoding context,
  the transient relation, the WAL, the storage swap. Seven functions of this file whose
  body is input and output only (\<^verbatim>\<open>build_historic_snapshot\<close>, \<^verbatim>\<open>perform_initial_load\<close>,
  \<^verbatim>\<open>build_transient_indexes\<close>, \<^verbatim>\<open>build_identity_key\<close>, \<^verbatim>\<open>decoding_cleanup\<close>,
  \<^verbatim>\<open>swap_relation_files\<close>, \<^verbatim>\<open>swap_toast_names\<close>) are calls too, as is
  \<^verbatim>\<open>process_concurrent_changes\<close> of \<^verbatim>\<open>concurrent.c\<close>. The trace is the list of the calls
  that returned, oldest first.\<close>

datatype call =
    HeapOpen Oid LOCKMODE
  | HeapClose Oid LOCKMODE
  | LockRelationOid Oid LOCKMODE
  | UnlockRelationOid Oid LOCKMODE
  | CreateInitDecodingContext
  | BuildHistoricSnapshot
  | HeapCreateWithCatalog Oid
  | PerformInitialLoad Oid Oid
  | BuildTransientIndexes "Oid list"
  | BuildIdentityKey Oid
  | XLogFlush
  | ProcessConcurrentChanges LOCKMODE "timeval option"
  | DecodingCleanup
  | SwapRelationFiles Oid Oid
  | SwapToastNames Oid Oid Oid Oid
  | PerformDeletion Oid

text \<open>The relation cache entry \<^verbatim>\<open>heap_openrv\<close> returns: the OID, the \<^verbatim>\<open>pg_class\<close> form and
  \<^verbatim>\<open>RelationGetReplicaIndex\<close>.\<close>

record Relation =
  rd_id :: Oid
  rd_rel :: pg_class_tuple
  rd_replidindex :: Oid

datatype ReplicationSlotPersistency = RS_PERSISTENT | RS_EPHEMERAL

record ReplicationSlot =
  slot_name :: string
  slot_persistency :: ReplicationSlotPersistency

text \<open>What the function cannot know in advance is an input: the answer of every call into
  PostgreSQL may depend on everything that happened before (the trace), which also
  covers what other sessions commit in the meantime. \<open>catalog_now\<close> is the catalog a
  fresh snapshot shows.\<close>

record env =
  MyDatabaseId :: Oid
  MyDatabaseTableSpace :: Oid
  squeeze_max_xlock_time :: int
  superuser :: bool
  has_rolreplication :: bool
  max_replication_slots :: nat
  CheckLogicalDecodingRequirements :: "error option"
  heap_openrv_result :: "string \<Rightarrow> string \<Rightarrow> call list \<Rightarrow> error + Relation"
  CheckTableNotInUse :: "Oid \<Rightarrow> call list \<Rightarrow> error option"
  catalog_now :: "call list \<Rightarrow> catalog"
  get_tablespace_oid :: "string \<Rightarrow> Oid option"
  pg_tablespace_aclcheck :: "Oid \<Rightarrow> Oid \<Rightarrow> bool"
  heap_create_with_catalog :: "call list \<Rightarrow> error + Oid \<times> Oid"
  build_transient_indexes_result :: "Oid list \<Rightarrow> call list \<Rightarrow> error + Oid list"
  process_concurrent_changes_result ::
    "LOCKMODE \<Rightarrow> timeval option \<Rightarrow> call list \<Rightarrow> error + bool"
  gettimeofday :: "call list \<Rightarrow> timeval"
  call_error :: "call \<Rightarrow> call list \<Rightarrow> error option"

text \<open>The state a running \<^verbatim>\<open>squeeze_table\<close> changes: the trace, the replication slots in
  use in shared memory, and the slot this backend holds (\<^verbatim>\<open>MyReplicationSlot\<close>).\<close>

record world =
  trace :: "call list"
  slots :: "ReplicationSlot list"
  MyReplicationSlot :: "string option"

type_synonym 'a action = "world \<Rightarrow> (error + 'a) \<times> world"

definition ok :: "'a \<Rightarrow> 'a action" where
  "ok x = (\<lambda>w. (Inr x, w))"

definition ereport :: "error \<Rightarrow> 'a action" where
  "ereport e = (\<lambda>w. (Inl e, w))"

definition and_then :: "'a action \<Rightarrow> ('a \<Rightarrow> 'b action) \<Rightarrow> 'b action" where
  "and_then m f = (\<lambda>w. case m w of (Inl e, w') \<Rightarrow> (Inl e, w') | (Inr x, w') \<Rightarrow> f x w')"

definition did :: "call \<Rightarrow> unit action" where
  "did c = (\<lambda>w. (Inr (), w\<lparr>trace := trace w @ [c]\<rparr>))"

definition pg_call :: "env \<Rightarrow> call \<Rightarrow> unit action" where
  "pg_call e c =
     (\<lambda>w. case call_error e c (trace w) of Some err \<Rightarrow> (Inl err, w) | None \<Rightarrow> did c w)"

definition lift :: "(call list \<Rightarrow> error + 'a) \<Rightarrow> 'a action" where
  "lift f = (\<lambda>w. (f (trace w), w))"

text \<open>The lock manager counts: a lock is held while it was taken more often than it was
  released. \<^verbatim>\<open>heap_open\<close> takes the lock it is given, \<^verbatim>\<open>heap_close\<close> releases it.\<close>

fun lock_delta :: "Oid \<Rightarrow> LOCKMODE \<Rightarrow> call \<Rightarrow> int" where
  "lock_delta r m (LockRelationOid r' m') = (if r' = r \<and> m' = m then 1 else 0)"
| "lock_delta r m (HeapOpen r' m') = (if r' = r \<and> m' = m \<and> m \<noteq> NoLock then 1 else 0)"
| "lock_delta r m (UnlockRelationOid r' m') = (if r' = r \<and> m' = m then - 1 else 0)"
| "lock_delta r m (HeapClose r' m') = (if r' = r \<and> m' = m \<and> m \<noteq> NoLock then - 1 else 0)"
| "lock_delta r m _ = 0"

definition lock_count :: "call list \<Rightarrow> Oid \<Rightarrow> LOCKMODE \<Rightarrow> int" where
  "lock_count tr r m = sum_list (map (lock_delta r m) tr)"

section \<open>setup\_decoding\<close>

text \<open>PostgreSQL's \<^verbatim>\<open>slot.c\<close>, as far as \<^verbatim>\<open>setup_decoding\<close> depends on it.
  \<^verbatim>\<open>ReplicationSlotCreate\<close> raises when a slot in use has the name, then when no slot is
  free; otherwise the backend holds the new slot. \<^verbatim>\<open>ReplicationSlotRelease\<close> drops the
  slot the backend holds when it is ephemeral and lets go of it in any case.\<close>

definition ReplicationSlotCreate :: "env \<Rightarrow> string \<Rightarrow> ReplicationSlotPersistency \<Rightarrow> unit action" where
  "ReplicationSlotCreate e name persistency =
     (\<lambda>w. if list_ex (\<lambda>s. slot_name s = name) (slots w)
           then (Inl (Error ERRCODE_DUPLICATE_OBJECT ''replication slot already exists''), w)
           else if max_replication_slots e \<le> length (slots w)
           then (Inl (Error ERRCODE_CONFIGURATION_LIMIT_EXCEEDED
                        ''all replication slots are in use''), w)
           else (Inr (), w\<lparr>slots := slots w @ [\<lparr>slot_name = name, slot_persistency = persistency\<rparr>],
                           MyReplicationSlot := Some name\<rparr>))"

definition ReplicationSlotRelease :: "unit action" where
  "ReplicationSlotRelease =
     (\<lambda>w. case MyReplicationSlot w of
             None \<Rightarrow> (Inr (), w)
           | Some name \<Rightarrow>
               (Inr (), w\<lparr>slots := filter (\<lambda>s. \<not> (slot_name s = name \<and>
                                                   slot_persistency s = RS_EPHEMERAL)) (slots w),
                          MyReplicationSlot := None\<rparr>))"

text \<open>\<^verbatim>\<open>appendStringInfo(buf, "%u", MyDatabaseId)\<close>: the decimal digits of an unsigned.\<close>

fun decimal :: "nat \<Rightarrow> string" where
  "decimal n = (if n < 10 then [char_of (48 + n)]
                else decimal (n div 10) @ [char_of (48 + n mod 10)])"

declare decimal.simps [simp del]

definition REPL_SLOT_BASE_NAME :: string where
  "REPL_SLOT_BASE_NAME = ''pg_squeeze_slot_''"

definition repl_slot_name :: "Oid \<Rightarrow> string" where
  "repl_slot_name dbid = REPL_SLOT_BASE_NAME @ decimal (unat dbid)"

text \<open>\<^verbatim>\<open>relid\<close> and \<^verbatim>\<open>tup_desc\<close> go into the \<^verbatim>\<open>DecodingOutputState\<close> only; the slot is named
  after the database.\<close>

definition setup_decoding :: "env \<Rightarrow> Oid \<Rightarrow> unit action" where
  "setup_decoding e rel =
     and_then (\<lambda>w. if MyReplicationSlot w \<noteq> None then ReplicationSlotRelease w else ok () w)
       (\<lambda>_.
     if \<not> superuser e \<and> \<not> has_rolreplication e
     then ereport (Error ERRCODE_INSUFFICIENT_PRIVILEGE
                     ''must be superuser or replication role to use replication slots'')
     else
     and_then (case CheckLogicalDecodingRequirements e of
                 Some err \<Rightarrow> ereport err | None \<Rightarrow> ok ()) (\<lambda>_.
     and_then (ReplicationSlotCreate e (repl_slot_name (MyDatabaseId e)) RS_EPHEMERAL) (\<lambda>_.
     pg_call e CreateInitDecodingContext)))"

section \<open>check\_prerequisites\<close>

definition RELKIND_RELATION :: char where "RELKIND_RELATION = CHR ''r''"
definition RELKIND_INDEX :: char where "RELKIND_INDEX = CHR ''i''"
definition RELPERSISTENCE_PERMANENT :: char where "RELPERSISTENCE_PERMANENT = CHR ''p''"
definition FirstNormalObjectId :: Oid where "FirstNormalObjectId = 16384"
definition GLOBALTABLESPACE_OID :: Oid where "GLOBALTABLESPACE_OID = 1664"

definition REPLICA_IDENTITY_DEFAULT :: char where "REPLICA_IDENTITY_DEFAULT = CHR ''d''"
definition REPLICA_IDENTITY_NOTHING :: char where "REPLICA_IDENTITY_NOTHING = CHR ''n''"
definition REPLICA_IDENTITY_FULL :: char where "REPLICA_IDENTITY_FULL = CHR ''f''"
definition REPLICA_IDENTITY_INDEX :: char where "REPLICA_IDENTITY_INDEX = CHR ''i''"

definition RelationIsMapped :: "Relation \<Rightarrow> bool" where
  "RelationIsMapped rel = (relfilenode (rd_rel rel) = InvalidOid)"

definition check_prerequisites :: "env \<Rightarrow> Relation \<Rightarrow> unit action" where
  "check_prerequisites e rel =
     (if relkind (rd_rel rel) \<noteq> RELKIND_RELATION
      then ereport (Error ERRCODE_WRONG_OBJECT_TYPE ''%s is not a table'')
      else if relpersistence (rd_rel rel) \<noteq> RELPERSISTENCE_PERMANENT
      then ereport (Error ERRCODE_WRONG_OBJECT_TYPE ''%s is not a regular table'')
      else if relisshared (rd_rel rel)
      then ereport (Error ERRCODE_WRONG_OBJECT_TYPE ''%s is shared relation'')
      else if RelationIsMapped rel
      then ereport (Error ERRCODE_WRONG_OBJECT_TYPE ''%s is mapped relation'')
      else if rd_id rel < FirstNormalObjectId
      then ereport (Error ERRCODE_WRONG_OBJECT_TYPE ''%s is not user relation'')
      else lift (\<lambda>tr. case CheckTableNotInUse e (rd_id rel) tr of
                         Some err \<Rightarrow> Inl err | None \<Rightarrow> Inr ()))"

section \<open>resolve\_index\_tablepaces\<close>

text \<open>An array value: per dimension its size and its lower bound (\<^verbatim>\<open>ARR_DIMS\<close>,
  \<^verbatim>\<open>ARR_LBOUND\<close>), and the elements in storage order as \<^verbatim>\<open>deconstruct_array\<close> returns
  them, \<open>None\<close> for NULL.\<close>

record ArrayType =
  arr_dims :: "(int \<times> int) list"
  arr_data :: "string option list"

definition ARR_NDIM :: "ArrayType \<Rightarrow> nat" where
  "ARR_NDIM a = length (arr_dims a)"

record IndexTablespace =
  it_index :: Oid
  it_tablespace :: Oid

text \<open>\<^verbatim>\<open>TablespaceInfo\<close>: \<^verbatim>\<open>table\<close>, and \<^verbatim>\<open>indexes\<close> with its length \<^verbatim>\<open>nindexes\<close>.\<close>

record TablespaceInfo =
  tbsp_table :: Oid
  tbsp_indexes :: "IndexTablespace list"

text \<open>Entry \<open>i\<close> is \<open>(elements[2 * i], elements[2 * i + 1])\<close>, for \<open>i < nelems / 2\<close>; the
  caller has excluded NULLs.\<close>

fun mapping_entries :: "string option list \<Rightarrow> (string \<times> string) list" where
  "mapping_entries (Some indname # Some tbspname # rest) =
     (indname, tbspname) # mapping_entries rest"
| "mapping_entries _ = []"

text \<open>The inner loop over \<^verbatim>\<open>cat_state->indexes\<close>: the OID of the first index of that name,
  \<^verbatim>\<open>InvalidOid\<close> when there is none.\<close>

definition find_index_oid :: "CatalogState \<Rightarrow> string \<Rightarrow> Oid" where
  "find_index_oid cs indname =
     (case find (\<lambda>ind_cat. ind_relname ind_cat = indname) (take (relninds cs) (indexes cs)) of
        None \<Rightarrow> InvalidOid
      | Some ind_cat \<Rightarrow> ind_oid ind_cat)"

fun resolve_mappings ::
  "env \<Rightarrow> CatalogState \<Rightarrow> (string \<times> string) list \<Rightarrow> IndexTablespace list
    \<Rightarrow> error + IndexTablespace list" where
  "resolve_mappings e cs [] acc = Inr acc"
| "resolve_mappings e cs ((indname, tbspname) # rest) acc =
     (let ind_oid = find_index_oid cs indname in
      if \<not> OidIsValid ind_oid
      then Inl (Error ERRCODE_INVALID_PARAMETER_VALUE ''Table has no index %s'')
      else if list_ex (\<lambda>ind_ts. it_index ind_ts = ind_oid) acc
      then Inl (Error ERRCODE_INVALID_PARAMETER_VALUE
                  ''Duplicate tablespace mapping for index %s'')
      else
        (case get_tablespace_oid e tbspname of
           None \<Rightarrow> Inl (Error ERRCODE_UNDEFINED_OBJECT ''tablespace %s does not exist'')
         | Some tbsp_oid \<Rightarrow>
             resolve_mappings e cs rest
               (acc @ [\<lparr>it_index = ind_oid, it_tablespace = tbsp_oid\<rparr>])))"

definition resolve_index_tablepaces ::
  "env \<Rightarrow> TablespaceInfo \<Rightarrow> CatalogState \<Rightarrow> ArrayType \<Rightarrow> error + TablespaceInfo" where
  "resolve_index_tablepaces e tbsp_info cs ind_tbsp_a =
     (if ARR_NDIM ind_tbsp_a \<noteq> 2
      then Inl (Error ERRCODE_DATATYPE_MISMATCH
                  ''Index-to-tablespace mappings must be text[][] array'')
      else if fst (arr_dims ind_tbsp_a ! 1) \<noteq> 2
      then Inl (Error ERRCODE_DATATYPE_MISMATCH
                  ''The index-to-tablespace mappings must have 2 columns'')
      else if list_ex (\<lambda>d. snd d \<noteq> 1) (arr_dims ind_tbsp_a)
      then Inl (Error ERRCODE_DATATYPE_MISMATCH
                  ''Each dimension of the index-to-tablespace mappings must start at 1'')
      else if list_ex (\<lambda>x. x = None) (arr_data ind_tbsp_a)
      then Inl (Error ERRCODE_INVALID_PARAMETER_VALUE
                  ''The index-to-tablespace array is must not contain NULLs'')
      else
        (case resolve_mappings e cs (mapping_entries (arr_data ind_tbsp_a))
                (tbsp_indexes tbsp_info) of
           Inl err \<Rightarrow> Inl err
         | Inr inds \<Rightarrow> Inr (tbsp_info\<lparr>tbsp_indexes := inds\<rparr>)))"

section \<open>create\_transient\_table, build\_identity\_key\<close>

text \<open>The two checks of the tablespace, then \<^verbatim>\<open>heap_create_with_catalog\<close> (and
  \<^verbatim>\<open>NewHeapCreateToastTable\<close>): the environment returns the OID of the new relation and of
  its TOAST relation.\<close>

definition create_transient_table :: "env \<Rightarrow> CatalogState \<Rightarrow> Oid \<Rightarrow> Oid \<Rightarrow> (Oid \<times> Oid) action" where
  "create_transient_table e cs tablespace owner =
     (if OidIsValid tablespace \<and> tablespace \<noteq> MyDatabaseTableSpace e \<and>
         \<not> pg_tablespace_aclcheck e tablespace owner
      then ereport (Error ERRCODE_INSUFFICIENT_PRIVILEGE ''permission denied for tablespace %s'')
      else if tablespace = GLOBALTABLESPACE_OID
      then ereport (Error ERRCODE_INVALID_PARAMETER_VALUE
                      ''only shared relations can be placed in pg_global tablespace'')
      else and_then (lift (heap_create_with_catalog e)) (\<lambda>(result, toastrelid).
           and_then (did (HeapCreateWithCatalog result)) (\<lambda>_. ok (result, toastrelid))))"

text \<open>\<^verbatim>\<open>build_identity_key\<close> opens the identity index first; \<^verbatim>\<open>index_open\<close> raises for an OID
  no relation has, and no relation has \<^verbatim>\<open>InvalidOid\<close>
  (\<^verbatim>\<open>Assert(OidIsValid(ident_idx_oid))\<close> is compiled out).\<close>

definition build_identity_key :: "env \<Rightarrow> Oid \<Rightarrow> unit action" where
  "build_identity_key e ident_idx_oid =
     (if \<not> OidIsValid ident_idx_oid
      then ereport (Error ERRCODE_INTERNAL_ERROR ''could not open relation with OID %u'')
      else pg_call e (BuildIdentityKey ident_idx_oid))"

section \<open>perform\_final\_merge\<close>

definition USECS_PER_SEC :: int where
  "USECS_PER_SEC = 1000000"

text \<open>The end of the time the exclusive lock may be held, from the start time and
  \<^verbatim>\<open>squeeze_max_xlock_time\<close> (milliseconds, not negative).\<close>

definition xlock_deadline :: "timeval \<Rightarrow> int \<Rightarrow> timeval" where
  "xlock_deadline t_start max_xlock_time =
     (let usec = tv_usec t_start + 1000 * (max_xlock_time mod 1000)
      in \<lparr>tv_sec = tv_sec t_start + usec div USECS_PER_SEC,
          tv_usec = usec mod USECS_PER_SEC\<rparr>)"

definition process_concurrent_changes :: "env \<Rightarrow> LOCKMODE \<Rightarrow> timeval option \<Rightarrow> bool action" where
  "process_concurrent_changes e lock_held must_complete =
     and_then (lift (process_concurrent_changes_result e lock_held must_complete)) (\<lambda>finished.
     and_then (did (ProcessConcurrentChanges lock_held must_complete)) (\<lambda>_. ok finished))"

definition check_catalog_changes_now :: "env \<Rightarrow> CatalogState \<Rightarrow> LOCKMODE \<Rightarrow> unit action" where
  "check_catalog_changes_now e cs lock_held =
     lift (\<lambda>tr. check_catalog_changes (catalog_now e tr) cs lock_held)"

fun lock_indexes :: "env \<Rightarrow> Oid list \<Rightarrow> unit action" where
  "lock_indexes e [] = ok ()"
| "lock_indexes e (ind # rest) =
     and_then (pg_call e (LockRelationOid ind AccessExclusiveLock)) (\<lambda>_. lock_indexes e rest)"

fun unlock_indexes :: "Oid list \<Rightarrow> unit action" where
  "unlock_indexes [] = ok ()"
| "unlock_indexes (ind # rest) =
     and_then (did (UnlockRelationOid ind AccessExclusiveLock)) (\<lambda>_. unlock_indexes rest)"

definition perform_final_merge :: "env \<Rightarrow> Oid \<Rightarrow> Oid list \<Rightarrow> CatalogState \<Rightarrow> bool action" where
  "perform_final_merge e relid_src indexes_src cs =
     and_then (pg_call e (LockRelationOid relid_src AccessExclusiveLock)) (\<lambda>_.
     and_then (lock_indexes e indexes_src) (\<lambda>_.
     and_then (lift (\<lambda>tr. Inr (if 0 < squeeze_max_xlock_time e
                               then Some (xlock_deadline (gettimeofday e tr)
                                            (squeeze_max_xlock_time e))
                               else None))) (\<lambda>t_end_ptr.
     and_then (check_catalog_changes_now e cs NoLock) (\<lambda>_.
     and_then (pg_call e XLogFlush) (\<lambda>_.
     and_then (process_concurrent_changes e AccessExclusiveLock t_end_ptr) (\<lambda>success.
     if \<not> success
     then and_then (unlock_indexes indexes_src) (\<lambda>_.
          and_then (did (UnlockRelationOid relid_src AccessExclusiveLock)) (\<lambda>_.
          and_then (process_concurrent_changes e AccessExclusiveLock None) (\<lambda>_.
          ok success)))
     else ok success))))))"

section \<open>squeeze\_table\<close>

text \<open>The arguments of the SQL function; \<open>None\<close> is \<^verbatim>\<open>PG_ARGISNULL\<close>.\<close>

record squeeze_args =
  arg_relschema :: "string option"
  arg_relname :: "string option"
  arg_indname :: "string option"
  arg_tbspname :: "string option"
  arg_ind_tbsp :: "ArrayType option"

text \<open>The local variables the first part of \<^verbatim>\<open>squeeze_table\<close> sets while it holds the
  share lock.\<close>

record source_info =
  relid_src :: Oid
  rel_src_owner :: Oid
  toastrelid_src :: Oid
  ident_idx_src :: Oid
  replident :: char
  cat_state :: CatalogState

record transient_info =
  relid_dst :: Oid
  toastrelid_dst :: Oid
  indexes_src :: "Oid list"
  indexes_dst :: "Oid list"

text \<open>From \<^verbatim>\<open>heap_openrv\<close> to the identity checks.\<close>

definition heap_openrv :: "env \<Rightarrow> string \<Rightarrow> string \<Rightarrow> LOCKMODE \<Rightarrow> Relation action" where
  "heap_openrv e relschema rel_name lockmode =
     and_then (lift (heap_openrv_result e relschema rel_name)) (\<lambda>rel.
     and_then (did (HeapOpen (rd_id rel) lockmode)) (\<lambda>_. ok rel))"

definition squeeze_table_checks :: "env \<Rightarrow> string \<Rightarrow> string \<Rightarrow> source_info action" where
  "squeeze_table_checks e relschema rel_name =
     and_then (heap_openrv e relschema rel_name AccessShareLock) (\<lambda>rel_src.
     and_then (check_prerequisites e rel_src) (\<lambda>_.
     and_then (lift (\<lambda>tr. get_catalog_state (catalog_now e tr) (rd_id rel_src))) (\<lambda>cs.
     if invalid_index cs
     then ereport (Error ERRCODE_OBJECT_NOT_IN_PREREQUISITE_STATE
                     ''At least one index is invalid'')
     else
     and_then (did (HeapClose (rd_id rel_src) AccessShareLock)) (\<lambda>_.
     if relreplident (rd_rel rel_src) = REPLICA_IDENTITY_NOTHING \<or>
        (relreplident (rd_rel rel_src) = REPLICA_IDENTITY_DEFAULT \<and>
         \<not> OidIsValid (rd_replidindex rel_src))
     then ereport (Error ERRCODE_UNIQUE_VIOLATION ''Table %s.%s has no identity index'')
     else if relreplident (rd_rel rel_src) = REPLICA_IDENTITY_FULL
     then ereport (Error ERRCODE_UNIQUE_VIOLATION ''Replica identity full not supported'')
     else ok \<lparr>relid_src = rd_id rel_src, rel_src_owner = relowner (rd_rel rel_src),
              toastrelid_src = reltoastrelid (rd_rel rel_src),
              ident_idx_src = rd_replidindex rel_src,
              replident = relreplident (rd_rel rel_src), cat_state = cs\<rparr>))))"

text \<open>The tablespace arguments.\<close>

definition squeeze_table_tablespaces :: "env \<Rightarrow> squeeze_args \<Rightarrow> source_info \<Rightarrow> TablespaceInfo action" where
  "squeeze_table_tablespaces e args src =
     and_then (case arg_tbspname args of
                 Some tbspname \<Rightarrow>
                   (case get_tablespace_oid e tbspname of
                      None \<Rightarrow> ereport (Error ERRCODE_UNDEFINED_OBJECT
                                          ''tablespace %s does not exist'')
                    | Some tbsp_oid \<Rightarrow> ok tbsp_oid)
               | None \<Rightarrow> ok (reltablespace (form_class (cat_state src)))) (\<lambda>table.
     case arg_ind_tbsp args of
       Some ind_tbsp \<Rightarrow>
         lift (\<lambda>tr. resolve_index_tablepaces e \<lparr>tbsp_table = table, tbsp_indexes = []\<rparr>
                      (cat_state src) ind_tbsp)
     | None \<Rightarrow> ok \<lparr>tbsp_table = table, tbsp_indexes = []\<rparr>)"

text \<open>From \<^verbatim>\<open>setup_decoding\<close> to the check of \<^verbatim>\<open>pg_index\<close> before the final stage. The
  loop that looks for the identity index of the transient relation is \<open>find\<close> over the
  pairs \<open>(indexes_src[i], indexes_dst[i])\<close>.\<close>

definition squeeze_table_load :: "env \<Rightarrow> source_info \<Rightarrow> TablespaceInfo \<Rightarrow> transient_info action" where
  "squeeze_table_load e src tbsp_info =
     (let cs = cat_state src;
          nindexes = relninds cs;
          inds_src = map ind_oid (take nindexes (indexes cs)) in
      and_then (setup_decoding e (relid_src src)) (\<lambda>_.
      and_then (pg_call e BuildHistoricSnapshot) (\<lambda>_.
      and_then (create_transient_table e cs (tbsp_table tbsp_info) (rel_src_owner src))
        (\<lambda>(rel_dst, toast_dst).
      and_then (pg_call e (HeapOpen (relid_src src) AccessShareLock)) (\<lambda>_.
      and_then (pg_call e (HeapOpen rel_dst NoLock)) (\<lambda>_.
      and_then (check_catalog_changes_now e cs NoLock) (\<lambda>_.
      and_then (pg_call e (PerformInitialLoad (relid_src src) rel_dst)) (\<lambda>_.
      and_then (check_catalog_changes_now e cs AccessShareLock) (\<lambda>_.
      and_then (lift (build_transient_indexes_result e inds_src)) (\<lambda>inds_dst.
      and_then (did (BuildTransientIndexes inds_dst)) (\<lambda>_.
      and_then (build_identity_key e (ident_idx_src src)) (\<lambda>_.
      and_then (did (HeapClose (relid_src src) AccessShareLock)) (\<lambda>_.
      if \<not> OidIsValid (case find (\<lambda>(s, d). ident_idx_src src = s) (zip inds_src inds_dst) of
                          None \<Rightarrow> InvalidOid | Some (s, d) \<Rightarrow> d)
      then ereport (Error ERRCODE_INTERNAL_ERROR
                      ''Identity index missing on the transient relation'')
      else
      and_then (pg_call e XLogFlush) (\<lambda>_.
      and_then (process_concurrent_changes e NoLock None) (\<lambda>_.
      and_then (lift (\<lambda>tr. get_index_info (catalog_now e tr) (relid_src src) True))
        (\<lambda>(found_invalid, _, _).
      if found_invalid
      then ereport (Error ERRCODE_OBJECT_IN_USE ''Concurrent change of index detected'')
      else ok \<lparr>relid_dst = rel_dst, toastrelid_dst = toast_dst,
               indexes_src = inds_src, indexes_dst = inds_dst\<rparr>))))))))))))))))"

text \<open>\<^verbatim>\<open>for (i = 0; i < 4; i++)\<close> around \<^verbatim>\<open>perform_final_merge\<close>: the result is
  \<^verbatim>\<open>source_finalized\<close>.\<close>

fun final_merge_attempts ::
  "env \<Rightarrow> nat \<Rightarrow> Oid \<Rightarrow> Oid list \<Rightarrow> CatalogState \<Rightarrow> bool action" where
  "final_merge_attempts e 0 rel inds cs = ok False"
| "final_merge_attempts e (Suc n) rel inds cs =
     and_then (perform_final_merge e rel inds cs) (\<lambda>success.
     if success then ok True else final_merge_attempts e n rel inds cs)"

fun swap_index_files :: "env \<Rightarrow> (Oid \<times> Oid) list \<Rightarrow> unit action" where
  "swap_index_files e [] = ok ()"
| "swap_index_files e ((s, d) # rest) =
     and_then (pg_call e (SwapRelationFiles s d)) (\<lambda>_. swap_index_files e rest)"

text \<open>From the final stage to the end.\<close>

definition squeeze_table_finish :: "env \<Rightarrow> source_info \<Rightarrow> transient_info \<Rightarrow> unit action" where
  "squeeze_table_finish e src tr =
     and_then (final_merge_attempts e 4 (relid_src src) (indexes_src tr) (cat_state src))
       (\<lambda>source_finalized.
     if \<not> source_finalized
     then ereport (Error ERRCODE_OBJECT_IN_USE
                     ''squeeze_max_xlock_time prevented squeeze from completion'')
     else
     and_then (pg_call e DecodingCleanup) (\<lambda>_.
     and_then ReplicationSlotRelease (\<lambda>_.
     and_then (did (HeapClose (relid_dst tr) NoLock)) (\<lambda>_.
     and_then (pg_call e (SwapRelationFiles (relid_src src) (relid_dst tr))) (\<lambda>_.
     and_then (pg_call e (SwapToastNames (relid_src src) (toastrelid_dst tr) (relid_dst tr)
                            (toastrelid_src src))) (\<lambda>_.
     and_then (swap_index_files e (zip (indexes_src tr) (indexes_dst tr))) (\<lambda>_.
     pg_call e (PerformDeletion (relid_dst tr)))))))))"

definition squeeze_table :: "env \<Rightarrow> squeeze_args \<Rightarrow> unit action" where
  "squeeze_table e args =
     (case (arg_relschema args, arg_relname args) of
        (Some relschema, Some rel_name) \<Rightarrow>
          and_then (squeeze_table_checks e relschema rel_name) (\<lambda>src.
          and_then (squeeze_table_tablespaces e args src) (\<lambda>tbsp_info.
          and_then (squeeze_table_load e src tbsp_info) (\<lambda>tr.
          squeeze_table_finish e src tr)))
      | _ \<Rightarrow> ereport (Error ERRCODE_NULL_VALUE_NOT_ALLOWED
                        ''Both schema and table name must be specified''))"

section \<open>get\_heap\_freespace\<close>

definition BLCKSZ :: nat where
  "BLCKSZ = 8192"

text \<open>The storage of a relation as \<^verbatim>\<open>get_heap_freespace\<close> sees it: the number of blocks of
  the heap, and the free-space map when its fork exists, as the number of free bytes it
  records per block. \<^verbatim>\<open>GetRecordedFreeSpace\<close> (PostgreSQL's \<^verbatim>\<open>freespace.c\<close>) returns 0
  when the map has no page for the block, so also when the fork does not exist.\<close>

record heap_storage =
  nblocks :: nat
  fsm_fork :: "(nat \<Rightarrow> nat) option"

definition GetRecordedFreeSpace :: "heap_storage \<Rightarrow> nat \<Rightarrow> nat" where
  "GetRecordedFreeSpace rel blkno =
     (case fsm_fork rel of None \<Rightarrow> 0 | Some recorded \<Rightarrow> recorded blkno)"

definition smgrexists_FSM_FORKNUM :: "heap_storage \<Rightarrow> bool" where
  "smgrexists_FSM_FORKNUM rel = (fsm_fork rel \<noteq> None)"

text \<open>The result is \<open>None\<close> for SQL NULL. \<^verbatim>\<open>free\<close> and \<^verbatim>\<open>total\<close> (here \<open>total_size\<close>) are \<^verbatim>\<open>Size\<close>; with a 64 bit
  \<^verbatim>\<open>Size\<close> they cannot wrap (\<^verbatim>\<open>nblocks\<close> is below \<open>2 ^ 32\<close> and a block has \<open>2 ^ 13\<close> bytes),
  so they are natural numbers here. The quotient of the two \<^verbatim>\<open>float8\<close> conversions is
  the real quotient; rounding to \<^verbatim>\<open>float8\<close> is not modelled.\<close>

definition get_heap_freespace :: "heap_storage \<Rightarrow> real option" where
  "get_heap_freespace rel =
     (if nblocks rel = 0 then None
      else
        (case fold (\<lambda>blkno (free, total_size). (free + GetRecordedFreeSpace rel blkno, total_size + BLCKSZ))
                [0..<nblocks rel] (0, 0) of
           (free, total_size) \<Rightarrow>
             let fsm_exists = (if free = 0 then smgrexists_FSM_FORKNUM rel else True)
             in if \<not> fsm_exists then None else Some (real free / real total_size)))"

section \<open>Vocabulary of the statements\<close>

text \<open>The statements about the index-to-tablespace mappings. A mapping names an index
  the table does not have when its index name is the name of none of the index entries
  of the saved catalog state; the array names an index twice when two of its mappings
  have the same index name. The SQLSTATEs with which \<^verbatim>\<open>squeeze_table\<close> refuses its
  tablespace arguments are the ones of \<open>is_invalid_configuration\<close>.\<close>

definition index_names :: "CatalogState \<Rightarrow> string list" where
  "index_names cs = map ind_relname (take (relninds cs) (indexes cs))"

definition names_unknown_index :: "CatalogState \<Rightarrow> ArrayType \<Rightarrow> bool" where
  "names_unknown_index cs a =
     list_ex (\<lambda>(indname, tbspname). indname \<notin> set (index_names cs))
       (mapping_entries (arr_data a))"

definition names_index_twice :: "ArrayType \<Rightarrow> bool" where
  "names_index_twice a = (\<not> distinct (map fst (mapping_entries (arr_data a))))"

fun is_invalid_configuration :: "error \<Rightarrow> bool" where
  "is_invalid_configuration (Error code msg) =
     (code = ERRCODE_DATATYPE_MISMATCH \<or> code = ERRCODE_INVALID_PARAMETER_VALUE \<or>
      code = ERRCODE_UNDEFINED_OBJECT)"
| "is_invalid_configuration (Crash msg) = False"

fun is_open_or_close :: "call \<Rightarrow> bool" where
  "is_open_or_close (HeapOpen rel lockmode) = True"
| "is_open_or_close (HeapClose rel lockmode) = True"
| "is_open_or_close _ = False"

text \<open>A point in time in microseconds, to compare a deadline with the start time plus
  \<^verbatim>\<open>squeeze.max_xlock_time\<close> (milliseconds).\<close>

definition timeval_usecs :: "timeval \<Rightarrow> int" where
  "timeval_usecs t = tv_sec t * USECS_PER_SEC + tv_usec t"

text \<open>The calls of one attempt of the final stage that gives up, made from the trace
  \<open>tr\<close>: the exclusive locks on the table and on its indexes, the flush, the drain with
  the deadline, the release of the locks, the drain without a deadline; and the calls of
  \<open>n\<close> such attempts in a row.\<close>

definition failed_attempt :: "env \<Rightarrow> Oid \<Rightarrow> Oid list \<Rightarrow> call list \<Rightarrow> call list" where
  "failed_attempt e rel inds tr =
     (let locked = LockRelationOid rel AccessExclusiveLock #
                   map (\<lambda>ind. LockRelationOid ind AccessExclusiveLock) inds
      in locked @
         [XLogFlush,
          ProcessConcurrentChanges AccessExclusiveLock
            (Some (xlock_deadline (gettimeofday e (tr @ locked)) (squeeze_max_xlock_time e)))] @
         map (\<lambda>ind. UnlockRelationOid ind AccessExclusiveLock) inds @
         [UnlockRelationOid rel AccessExclusiveLock,
          ProcessConcurrentChanges AccessExclusiveLock None])"

fun failed_attempts :: "env \<Rightarrow> Oid \<Rightarrow> Oid list \<Rightarrow> nat \<Rightarrow> call list \<Rightarrow> call list" where
  "failed_attempts e rel inds 0 tr = []"
| "failed_attempts e rel inds (Suc n) tr =
     failed_attempt e rel inds tr @
     failed_attempts e rel inds n (tr @ failed_attempt e rel inds tr)"

text \<open>The calls that change the storage or the catalog entry of a relation that exists.\<close>

fun changes_storage :: "call \<Rightarrow> bool" where
  "changes_storage (SwapRelationFiles r1 r2) = True"
| "changes_storage (SwapToastNames relid1 toastrelid1 relid2 toastrelid2) = True"
| "changes_storage (PerformDeletion rel) = True"
| "changes_storage _ = False"

fun is_bounded_drain :: "call \<Rightarrow> bool" where
  "is_bounded_drain (ProcessConcurrentChanges lock_held (Some t_end)) = True"
| "is_bounded_drain _ = False"

text \<open>An action emits only calls with the property \<open>P\<close>.\<close>

definition emits_only :: "(call \<Rightarrow> bool) \<Rightarrow> 'a action \<Rightarrow> bool" where
  "emits_only P m =
     (\<forall>w r w'. m w = (r, w') \<longrightarrow> (\<exists>ext. trace w' = trace w @ ext \<and> list_all P ext))"

section \<open>Example scenarios\<close>

text \<open>A table \<open>t\<close> (OID 16384) with two columns and the primary key index \<open>t_pkey\<close>
  (OID 16390), the state \<open>get_catalog_state\<close> saves for it, and the catalog after
  transaction 200 has added a column.\<close>

definition ex_table :: pg_class_tuple where
  "ex_table = \<lparr>class_xmin = 100, relname = ''t'', relnamespace = 2200, reltablespace = 0,
      relfilenode = 16384, reltoastrelid = 0, relowner = 10, relkind = CHR ''r'',
      relpersistence = CHR ''p'', relisshared = False, relnatts = 2,
      relreplident = CHR ''d''\<rparr>"

definition ex_index :: pg_class_tuple where
  "ex_index = \<lparr>class_xmin = 102, relname = ''t_pkey'', relnamespace = 2200,
      reltablespace = 0, relfilenode = 16390, reltoastrelid = 0, relowner = 10,
      relkind = CHR ''i'', relpersistence = CHR ''p'', relisshared = False, relnatts = 1,
      relreplident = CHR ''n''\<rparr>"

definition ex_catalog :: catalog where
  "ex_catalog =
     \<lparr>pg_class = [16384 \<mapsto> ex_table, 16390 \<mapsto> ex_index],
      pg_index = [\<lparr>index_xmin = 101, indexrelid = 16390, indrelid = 16384,
                   indisvalid = True, indisready = True, indislive = True\<rparr>],
      pg_attribute = [\<lparr>att_xmin = 100, attrelid = 16384, attnum = 1\<rparr>,
                      \<lparr>att_xmin = 100, attrelid = 16384, attnum = 2\<rparr>,
                      \<lparr>att_xmin = 100, attrelid = 16384, attnum = - 1\<rparr>]\<rparr>"

definition ex_state :: CatalogState where
  "ex_state =
     \<lparr>relid = 16384, form_class = ex_table, pg_class_xmin = 100, toast_xmin = 0,
      relninds = 1,
      indexes = [\<lparr>ind_oid = 16390, ind_xmin = 101, ind_pg_class_xmin = 102,
                  ind_relname = ''t_pkey'', ind_reltablespace = 0\<rparr>],
      invalid_index = False, attr_xmins = Some [Some 100, Some 100]\<rparr>"




text \<open>A call of \<^verbatim>\<open>squeeze_table\<close> whose table name is NULL.\<close>

definition ex_args_null :: squeeze_args where
  "ex_args_null = \<lparr>arg_relschema = Some ''public'', arg_relname = None, arg_indname = None,
      arg_tbspname = None, arg_ind_tbsp = None\<rparr>"

text \<open>Three relations for \<^verbatim>\<open>get_heap_freespace\<close>: three blocks and no free-space map; no
  block but a free-space map; two blocks, the map recording 4096 free bytes in block 0.\<close>

definition ex_heap_no_fsm :: heap_storage where
  "ex_heap_no_fsm = \<lparr>nblocks = 3, fsm_fork = None\<rparr>"

definition ex_heap_empty :: heap_storage where
  "ex_heap_empty = \<lparr>nblocks = 0, fsm_fork = Some (\<lambda>blkno. 0)\<rparr>"

definition ex_heap :: heap_storage where
  "ex_heap = \<lparr>nblocks = 2, fsm_fork = Some (\<lambda>blkno. if blkno = 0 then 4096 else 0)\<rparr>"

text \<open>A session of a superuser in database 5 in which nothing goes wrong: \<open>public.t\<close> is
  the table above, its replica identity is the primary key, no other session changes the
  catalog, every call into PostgreSQL returns, \<^verbatim>\<open>squeeze.max_xlock_time\<close> is 0 and
  \<^verbatim>\<open>process_concurrent_changes\<close> always finishes. The transient relation gets the OID
  16400, its index the OID 16410.\<close>

definition ex_relation :: Relation where
  "ex_relation = \<lparr>rd_id = 16384, rd_rel = ex_table, rd_replidindex = 16390\<rparr>"

definition ex_env :: env where
  "ex_env =
     \<lparr>MyDatabaseId = 5, MyDatabaseTableSpace = 1663, squeeze_max_xlock_time = 0,
      superuser = True, has_rolreplication = False, max_replication_slots = 10,
      CheckLogicalDecodingRequirements = None,
      heap_openrv_result =
        (\<lambda>relschema rel_name tr.
           if relschema = ''public'' \<and> rel_name = ''t'' then Inr ex_relation
           else Inl (Error ERRCODE_UNDEFINED_TABLE ''relation %s.%s does not exist'')),
      CheckTableNotInUse = (\<lambda>rel tr. None),
      catalog_now = (\<lambda>tr. ex_catalog),
      get_tablespace_oid =
        (\<lambda>tbspname. if tbspname = ''pg_default'' then Some 1663
                     else if tbspname = ''fast'' then Some 16500 else None),
      pg_tablespace_aclcheck = (\<lambda>tablespace owner. True),
      heap_create_with_catalog = (\<lambda>tr. Inr (16400, 0)),
      build_transient_indexes_result = (\<lambda>inds tr. Inr (map (\<lambda>ind. ind + 20) inds)),
      process_concurrent_changes_result = (\<lambda>lock_held must_complete tr. Inr True),
      gettimeofday = (\<lambda>tr. \<lparr>tv_sec = 1000, tv_usec = 250000\<rparr>),
      call_error = (\<lambda>c tr. None)\<rparr>"

definition ex_world :: world where
  "ex_world = \<lparr>trace = [], slots = [], MyReplicationSlot = None\<rparr>"

definition ex_args :: squeeze_args where
  "ex_args = \<lparr>arg_relschema = Some ''public'', arg_relname = Some ''t'', arg_indname = None,
      arg_tbspname = None, arg_ind_tbsp = None\<rparr>"

text \<open>A second backend of the same cluster: it shares the slots, holds none itself.\<close>
definition other_backend :: "world \<Rightarrow> world" where
  "other_backend w = w\<lparr>trace := [], MyReplicationSlot := None\<rparr>"

text \<open>What the session above has after the checks of the source table, and two arrays of
  mappings: one names \<open>t_pkey\<close> twice, one names an index \<open>t_idx\<close> the table does not
  have.\<close>

definition ex_source :: source_info where
  "ex_source = \<lparr>relid_src = 16384, rel_src_owner = 10, toastrelid_src = 0,
      ident_idx_src = 16390, replident = CHR ''d'', cat_state = ex_state\<rparr>"

definition ex_world_checked :: world where
  "ex_world_checked =
     ex_world\<lparr>trace := [HeapOpen 16384 AccessShareLock, HeapClose 16384 AccessShareLock]\<rparr>"

definition ex_mappings_twice :: ArrayType where
  "ex_mappings_twice =
     \<lparr>arr_dims = [(2, 1), (2, 1)],
      arr_data = [Some ''t_pkey'', Some ''fast'', Some ''t_pkey'', Some ''pg_default'']\<rparr>"

definition ex_mappings_unknown :: ArrayType where
  "ex_mappings_unknown =
     \<lparr>arr_dims = [(1, 1), (2, 1)], arr_data = [Some ''t_idx'', Some ''fast'']\<rparr>"

text \<open>The session above after the initial load, the index build and the first round of
  concurrent changes, and after the whole of \<^verbatim>\<open>squeeze_table\<close>.\<close>

definition ex_tablespaces :: TablespaceInfo where
  "ex_tablespaces = \<lparr>tbsp_table = 0, tbsp_indexes = []\<rparr>"

definition ex_transient :: transient_info where
  "ex_transient = \<lparr>relid_dst = 16400, toastrelid_dst = 0, indexes_src = [16390],
      indexes_dst = [16410]\<rparr>"

definition ex_world_loaded :: world where
  "ex_world_loaded =
     \<lparr>trace = [HeapOpen 16384 AccessShareLock, HeapClose 16384 AccessShareLock,
               CreateInitDecodingContext, BuildHistoricSnapshot, HeapCreateWithCatalog 16400,
               HeapOpen 16384 AccessShareLock, HeapOpen 16400 NoLock,
               PerformInitialLoad 16384 16400, BuildTransientIndexes [16410],
               BuildIdentityKey 16390, HeapClose 16384 AccessShareLock, XLogFlush,
               ProcessConcurrentChanges NoLock None],
      slots = [\<lparr>slot_name = ''pg_squeeze_slot_5'', slot_persistency = RS_EPHEMERAL\<rparr>],
      MyReplicationSlot = Some ''pg_squeeze_slot_5''\<rparr>"

definition ex_world_done :: world where
  "ex_world_done =
     \<lparr>trace = trace ex_world_loaded @
              [LockRelationOid 16384 AccessExclusiveLock,
               LockRelationOid 16390 AccessExclusiveLock, XLogFlush,
               ProcessConcurrentChanges AccessExclusiveLock None, DecodingCleanup,
               HeapClose 16400 NoLock, SwapRelationFiles 16384 16400,
               SwapToastNames 16384 0 16400 0, SwapRelationFiles 16390 16410,
               PerformDeletion 16400],
      slots = [], MyReplicationSlot = None\<rparr>"

text \<open>The same session with \<^verbatim>\<open>squeeze.max_xlock_time\<close> set to 1500 ms and a backlog
  that takes two seconds to drain: the clock reads 1000.25 s when the lock is taken, and
  \<^verbatim>\<open>process_concurrent_changes\<close> finishes only without a deadline or with one later than
  1002.25 s.\<close>

definition ex_env_busy :: env where
  "ex_env_busy =
     ex_env\<lparr>squeeze_max_xlock_time := 1500,
            process_concurrent_changes_result :=
              (\<lambda>lock_held must_complete tr.
                 Inr (case must_complete of
                        None \<Rightarrow> True
                      | Some t_end \<Rightarrow> 1002250000 < timeval_usecs t_end))\<rparr>"

text \<open>A second database of the cluster, and a role without the privilege.\<close>

definition ex_env_other_database :: env where
  "ex_env_other_database = ex_env\<lparr>MyDatabaseId := 6\<rparr>"

definition ex_env_unprivileged :: env where
  "ex_env_unprivileged = ex_env\<lparr>superuser := False\<rparr>"

text \<open>The same session on a table whose replica identity is an index (\<^verbatim>\<open>'i'\<close>) that has
  been dropped: \<^verbatim>\<open>RelationGetReplicaIndex\<close> returns \<^verbatim>\<open>InvalidOid\<close>.\<close>

definition ex_env_identity_dropped :: env where
  "ex_env_identity_dropped =
     ex_env\<lparr>heap_openrv_result :=
              (\<lambda>relschema rel_name tr.
                 Inr \<lparr>rd_id = 16384, rd_rel = ex_table\<lparr>relreplident := CHR ''i''\<rparr>,
                      rd_replidindex = InvalidOid\<rparr>)\<rparr>"

section \<open>The catalog checks\<close>

lemma get_catalog_state_example: "get_catalog_state ex_catalog 16384 = Inr ex_state"
  by code_simp






lemma class_scan_loop_too_many:
  "length res < length ts \<Longrightarrow> fst (class_scan_loop ts (length pre) (pre @ res))"
proof (induction ts arbitrary: pre res)
  case Nil
  then show ?case by simp
next
  case (Cons t ts)
  show ?case
  proof (cases res)
    case Nil
    then show ?thesis by simp
  next
    case (Cons r res')
    with Cons.prems have lt: "length res' < length ts" by simp
    have upd: "(pre @ r # res')[length pre := with_class_fields ((pre @ r # res') ! length pre) t] =
               (pre @ [with_class_fields r t]) @ res'"
      by (simp add: list_update_append)
    from Cons.IH [OF lt, of "pre @ [with_class_fields r t]"] upd show ?thesis
      by (simp add: Cons with_class_fields_def)
  qed
qed



























section \<open>The SQL entry point\<close>

text \<open>
  Claim C9. When the schema name or the table name is NULL, \<open>squeeze_table\<close> raises
  \<open>ERRCODE_NULL_VALUE_NOT_ALLOWED\<close> and the world is the one it started in: no relation
  was opened, no call was made.
\<close>

theorem squeeze_table_null_arguments:
  "arg_relschema args = None \<or> arg_relname args = None \<Longrightarrow>
   squeeze_table e args w =
     (Inl (Error ERRCODE_NULL_VALUE_NOT_ALLOWED
             ''Both schema and table name must be specified''), w)"
  by (auto simp: squeeze_table_def ereport_def split: option.splits)

theorem squeeze_table_null_arguments_witness:
  "(arg_relschema ex_args_null = None \<or> arg_relname ex_args_null = None) \<and>
   squeeze_table ex_env ex_args_null ex_world =
     (Inl (Error ERRCODE_NULL_VALUE_NOT_ALLOWED
             ''Both schema and table name must be specified''), ex_world)"
proof -
  have h: "arg_relschema ex_args_null = None \<or> arg_relname ex_args_null = None"
    by (simp add: ex_args_null_def)
  from h squeeze_table_null_arguments [OF h, of ex_env ex_world] show ?thesis by blast
qed

section \<open>The free-space ratio\<close>

lemma freespace_loop:
  "fold (\<lambda>blkno (free, total_size). (free + g blkno, total_size + b)) [0..<n] (f0, t0) =
   (f0 + sum_list (map g [0..<n]), t0 + n * b)"
  by (induction n) (simp_all add: algebra_simps)

lemma GetRecordedFreeSpace_no_fsm:
  "fsm_fork rel = None \<Longrightarrow> sum_list (map (GetRecordedFreeSpace rel) [0..<n]) = 0"
  by (simp add: GetRecordedFreeSpace_def)

text \<open>
  Claim C10. \<open>get_heap_freespace\<close> returns NULL when the relation has no free-space map,
  and also for every relation with no block, whether it has a free-space map or not; for
  a relation with blocks and a free-space map it returns the recorded free space of all
  blocks divided by the total size (\<open>nblocks * BLCKSZ\<close>).
\<close>

theorem get_heap_freespace_null:
  "(fsm_fork rel = None \<longrightarrow> get_heap_freespace rel = None) \<and>
   (nblocks rel = 0 \<longrightarrow> get_heap_freespace rel = None) \<and>
   (nblocks rel \<noteq> 0 \<and> fsm_fork rel = Some recorded \<longrightarrow>
      get_heap_freespace rel =
        Some (real (sum_list (map recorded [0..<nblocks rel])) / real (nblocks rel * BLCKSZ)))"
proof -
  have loop: "fold (\<lambda>blkno (free, total_size).
                 (free + GetRecordedFreeSpace rel blkno, total_size + BLCKSZ))
                [0..<nblocks rel] (0, 0) =
              (sum_list (map (GetRecordedFreeSpace rel) [0..<nblocks rel]), nblocks rel * BLCKSZ)"
    using freespace_loop [of "GetRecordedFreeSpace rel" BLCKSZ "nblocks rel" 0 0] by simp
  have a: "get_heap_freespace rel = None" if "fsm_fork rel = None"
    using that GetRecordedFreeSpace_no_fsm [OF that, of "nblocks rel"]
    by (simp add: get_heap_freespace_def loop smgrexists_FSM_FORKNUM_def)
  have b: "get_heap_freespace rel = None" if "nblocks rel = 0"
    using that by (simp add: get_heap_freespace_def)
  have c: "get_heap_freespace rel =
        Some (real (sum_list (map recorded [0..<nblocks rel])) / real (nblocks rel * BLCKSZ))"
    if "nblocks rel \<noteq> 0" "fsm_fork rel = Some recorded"
  proof -
    have "GetRecordedFreeSpace rel = recorded"
      using that(2) by (auto simp: GetRecordedFreeSpace_def)
    with loop have "fold (\<lambda>blkno (free, total_size).
                 (free + GetRecordedFreeSpace rel blkno, total_size + BLCKSZ))
                [0..<nblocks rel] (0, 0) =
              (sum_list (map recorded [0..<nblocks rel]), nblocks rel * BLCKSZ)"
      by simp
    then show ?thesis
      using that unfolding get_heap_freespace_def
      by (simp add: smgrexists_FSM_FORKNUM_def)
  qed
  from a b c show ?thesis by blast
qed

theorem get_heap_freespace_null_witness:
  "fsm_fork ex_heap_no_fsm = None \<and> get_heap_freespace ex_heap_no_fsm = None \<and>
   nblocks ex_heap_empty = 0 \<and> fsm_fork ex_heap_empty \<noteq> None \<and>
   get_heap_freespace ex_heap_empty = None \<and>
   nblocks ex_heap \<noteq> 0 \<and> get_heap_freespace ex_heap = Some (1 / 4)"
proof -
  have 1: "fsm_fork ex_heap_no_fsm = None" by (simp add: ex_heap_no_fsm_def)
  have 2: "nblocks ex_heap_empty = 0" "fsm_fork ex_heap_empty \<noteq> None"
    by (simp_all add: ex_heap_empty_def)
  have 3: "nblocks ex_heap \<noteq> 0"
    "fsm_fork ex_heap = Some (\<lambda>blkno. if blkno = 0 then 4096 else 0)"
    by (simp_all add: ex_heap_def)
  have 4: "real (sum_list (map (\<lambda>blkno. if blkno = 0 then 4096 else (0::nat)) [0..<nblocks ex_heap])) /
           real (nblocks ex_heap * BLCKSZ) = 1 / 4"
    by (simp add: ex_heap_def BLCKSZ_def upt_rec)
  from get_heap_freespace_null [of ex_heap_no_fsm] get_heap_freespace_null [of ex_heap_empty]
       get_heap_freespace_null [of ex_heap "\<lambda>blkno. if blkno = 0 then 4096 else 0"] 1 2 3 4
  show ?thesis by simp
qed

section \<open>The replication slot of a session\<close>

lemma decimal_small: "n < 10 \<Longrightarrow> decimal n = [char_of (48 + n)]"
  by (subst decimal.simps) simp

lemma decimal_big: "\<not> n < 10 \<Longrightarrow> decimal n = decimal (n div 10) @ [char_of (48 + n mod 10)]"
  by (subst decimal.simps) simp

lemma decimal_not_Nil: "decimal n \<noteq> []"
  by (cases "n < 10") (simp_all add: decimal_small decimal_big)

lemma digit_char_inj:
  "a < 10 \<Longrightarrow> b < 10 \<Longrightarrow> char_of (48 + a :: nat) = (char_of (48 + b :: nat) :: char) \<Longrightarrow> a = b"
  by (simp add: char_of_eq_iff take_bit_nat_eq_self)

lemma decimal_inj: "decimal n = decimal m \<Longrightarrow> n = m"
proof (induction n arbitrary: m rule: decimal.induct)
  case (1 n)
  show ?case
  proof (cases "n < 10")
    case small: True
    show ?thesis
    proof (cases "m < 10")
      case True
      with small "1.prems" show ?thesis
        by (simp add: decimal_small digit_char_inj)
    next
      case False
      with small "1.prems" decimal_not_Nil [of "m div 10"] show ?thesis
        by (simp add: decimal_small decimal_big)
    qed
  next
    case big: False
    show ?thesis
    proof (cases "m < 10")
      case True
      with big "1.prems" decimal_not_Nil [of "n div 10"] show ?thesis
        by (simp add: decimal_small decimal_big)
    next
      case False
      from big False "1.prems"
      have "decimal (n div 10) = decimal (m div 10)"
        and d: "(char_of (48 + n mod 10) :: char) = char_of (48 + m mod 10)"
        by (simp_all add: decimal_big)
      with "1.IH" big have "n div 10 = m div 10" by simp
      moreover from d have "n mod 10 = m mod 10"
        by (intro digit_char_inj) simp_all
      ultimately show ?thesis
        by (metis div_mult_mod_eq)
    qed
  qed
qed

lemma repl_slot_name_inj: "(repl_slot_name d = repl_slot_name d') = (d = d')"
proof
  assume "repl_slot_name d = repl_slot_name d'"
  then have "unat d = unat d'"
    by (auto simp: repl_slot_name_def dest: decimal_inj)
  then show "d = d'"
    by (simp add: word_unat_eq_iff)
qed simp

lemma ReplicationSlotRelease_fst: "fst (ReplicationSlotRelease w) = Inr ()"
  by (simp add: ReplicationSlotRelease_def split: option.splits)

lemma ReplicationSlotRelease_none:
  "MyReplicationSlot w = None \<Longrightarrow> ReplicationSlotRelease w = (Inr (), w)"
  by (simp add: ReplicationSlotRelease_def)

lemma setup_decoding_release:
  "setup_decoding e rel w =
     (if \<not> superuser e \<and> \<not> has_rolreplication e
      then (Inl (Error ERRCODE_INSUFFICIENT_PRIVILEGE
                   ''must be superuser or replication role to use replication slots''),
            snd (ReplicationSlotRelease w))
      else case CheckLogicalDecodingRequirements e of
             Some err \<Rightarrow> (Inl err, snd (ReplicationSlotRelease w))
           | None \<Rightarrow>
               and_then (ReplicationSlotCreate e (repl_slot_name (MyDatabaseId e)) RS_EPHEMERAL)
                 (\<lambda>_. pg_call e CreateInitDecodingContext) (snd (ReplicationSlotRelease w)))"
  by (cases "ReplicationSlotRelease w"; cases "MyReplicationSlot w")
     (auto simp: setup_decoding_def and_then_def ok_def ereport_def ReplicationSlotRelease_def
           split: option.splits)

text \<open>
  Claim C3, as amended. The slot of a session is named after the database alone
  (different databases give different names) and the table plays no part in
  \<open>setup_decoding\<close>. A caller that is neither superuser nor replication role is refused
  with \<open>ERRCODE_INSUFFICIENT_PRIVILEGE\<close>, whatever slots exist. For a caller with the
  privilege, with the requirements of logical decoding met, and given that the creation
  of the decoding context does not itself raise that error, \<open>setup_decoding\<close> raises
  \<open>ERRCODE_DUPLICATE_OBJECT\<close> exactly when a slot of that name is in use (after the
  backend has released a slot of its own); it then leaves the slots as they are; and it
  creates and holds the slot when none is in use and a slot is free. So two sessions of
  one database exclude each other whatever their tables are, and sessions of different
  databases do not.
\<close>

theorem setup_decoding_slot_per_database:
  "setup_decoding e rel w = setup_decoding e rel' w \<and>
   ((repl_slot_name dbid = repl_slot_name dbid') = (dbid = dbid')) \<and>
   (\<not> superuser e \<and> \<not> has_rolreplication e \<longrightarrow>
      fst (setup_decoding e rel w) =
        Inl (Error ERRCODE_INSUFFICIENT_PRIVILEGE
               ''must be superuser or replication role to use replication slots'')) \<and>
   ((superuser e \<or> has_rolreplication e) \<and> CheckLogicalDecodingRequirements e = None \<and>
    (\<forall>tr. call_error e CreateInitDecodingContext tr \<noteq>
            Some (Error ERRCODE_DUPLICATE_OBJECT ''replication slot already exists'')) \<longrightarrow>
      (fst (setup_decoding e rel w) =
         Inl (Error ERRCODE_DUPLICATE_OBJECT ''replication slot already exists'')) =
      list_ex (\<lambda>s. slot_name s = repl_slot_name (MyDatabaseId e))
        (slots (snd (ReplicationSlotRelease w)))) \<and>
   ((superuser e \<or> has_rolreplication e) \<and> CheckLogicalDecodingRequirements e = None \<longrightarrow>
      (list_ex (\<lambda>s. slot_name s = repl_slot_name (MyDatabaseId e))
           (slots (snd (ReplicationSlotRelease w))) \<longrightarrow>
         setup_decoding e rel w =
           (Inl (Error ERRCODE_DUPLICATE_OBJECT ''replication slot already exists''),
            snd (ReplicationSlotRelease w))) \<and>
      (\<not> list_ex (\<lambda>s. slot_name s = repl_slot_name (MyDatabaseId e))
             (slots (snd (ReplicationSlotRelease w))) \<and>
       length (slots (snd (ReplicationSlotRelease w))) < max_replication_slots e \<longrightarrow>
         MyReplicationSlot (snd (setup_decoding e rel w)) =
           Some (repl_slot_name (MyDatabaseId e)) \<and>
         list_ex (\<lambda>s. slot_name s = repl_slot_name (MyDatabaseId e))
           (slots (snd (setup_decoding e rel w)))))"
proof -
  have a: "setup_decoding e rel w = setup_decoding e rel' w"
    by (simp add: setup_decoding_def)
  have p: "fst (setup_decoding e rel w) =
        Inl (Error ERRCODE_INSUFFICIENT_PRIVILEGE
               ''must be superuser or replication role to use replication slots'')"
    if "\<not> superuser e \<and> \<not> has_rolreplication e"
    using that by (simp add: setup_decoding_release)
  have b: "setup_decoding e rel w =
           (Inl (Error ERRCODE_DUPLICATE_OBJECT ''replication slot already exists''),
            snd (ReplicationSlotRelease w))"
    if "superuser e \<or> has_rolreplication e" "CheckLogicalDecodingRequirements e = None"
      "list_ex (\<lambda>s. slot_name s = repl_slot_name (MyDatabaseId e))
           (slots (snd (ReplicationSlotRelease w)))"
    using that by (auto simp: setup_decoding_release and_then_def ReplicationSlotCreate_def)
  have only_if: "list_ex (\<lambda>s. slot_name s = repl_slot_name (MyDatabaseId e))
           (slots (snd (ReplicationSlotRelease w)))"
    if "superuser e \<or> has_rolreplication e" "CheckLogicalDecodingRequirements e = None"
      "\<forall>tr. call_error e CreateInitDecodingContext tr \<noteq>
            Some (Error ERRCODE_DUPLICATE_OBJECT ''replication slot already exists'')"
      "fst (setup_decoding e rel w) =
         Inl (Error ERRCODE_DUPLICATE_OBJECT ''replication slot already exists'')"
  proof (rule ccontr)
    assume free: "\<not> list_ex (\<lambda>s. slot_name s = repl_slot_name (MyDatabaseId e))
           (slots (snd (ReplicationSlotRelease w)))"
    from that(3) have "call_error e CreateInitDecodingContext tr \<noteq>
        Some (Error ERRCODE_DUPLICATE_OBJECT ''replication slot already exists'')" for tr
      by blast
    with that(1,2,4) free show False
      by (auto simp: setup_decoding_release and_then_def ReplicationSlotCreate_def pg_call_def
            did_def split: option.splits if_splits)
  qed
  have iff: "(fst (setup_decoding e rel w) =
         Inl (Error ERRCODE_DUPLICATE_OBJECT ''replication slot already exists'')) =
      list_ex (\<lambda>s. slot_name s = repl_slot_name (MyDatabaseId e))
        (slots (snd (ReplicationSlotRelease w)))"
    if "superuser e \<or> has_rolreplication e" "CheckLogicalDecodingRequirements e = None"
      "\<forall>tr. call_error e CreateInitDecodingContext tr \<noteq>
            Some (Error ERRCODE_DUPLICATE_OBJECT ''replication slot already exists'')"
    using b [OF that(1,2)] only_if [OF that] by auto
  have c: "MyReplicationSlot (snd (setup_decoding e rel w)) =
           Some (repl_slot_name (MyDatabaseId e)) \<and>
         list_ex (\<lambda>s. slot_name s = repl_slot_name (MyDatabaseId e))
           (slots (snd (setup_decoding e rel w)))"
    if "superuser e \<or> has_rolreplication e" "CheckLogicalDecodingRequirements e = None"
      "\<not> list_ex (\<lambda>s. slot_name s = repl_slot_name (MyDatabaseId e))
           (slots (snd (ReplicationSlotRelease w)))"
      "length (slots (snd (ReplicationSlotRelease w))) < max_replication_slots e"
    using that
    by (auto simp: setup_decoding_release and_then_def ReplicationSlotCreate_def pg_call_def
          did_def split: option.splits)
  from a p iff b c repl_slot_name_inj show ?thesis by blast
qed

text \<open>
  Claim C3 as stated fails: with a session on table 16384 open in database 5, a second
  backend that starts on another table, 16500, of the same database is refused.
\<close>

theorem setup_decoding_other_table_counterexample:
  "fst (setup_decoding ex_env 16384 ex_world) = Inr () \<and>
   fst (setup_decoding ex_env 16500 (other_backend (snd (setup_decoding ex_env 16384 ex_world)))) =
     Inl (Error ERRCODE_DUPLICATE_OBJECT ''replication slot already exists'')"
  by code_simp

theorem setup_decoding_slot_per_database_witness:
  "(superuser ex_env \<or> has_rolreplication ex_env) \<and>
   CheckLogicalDecodingRequirements ex_env = None \<and>
   \<not> list_ex (\<lambda>s. slot_name s = repl_slot_name (MyDatabaseId ex_env))
       (slots (snd (ReplicationSlotRelease ex_world))) \<and>
   length (slots (snd (ReplicationSlotRelease ex_world))) < max_replication_slots ex_env \<and>
   fst (setup_decoding ex_env 16384 ex_world) \<noteq>
     Inl (Error ERRCODE_DUPLICATE_OBJECT ''replication slot already exists'') \<and>
   MyReplicationSlot (snd (setup_decoding ex_env 16384 ex_world)) = Some ''pg_squeeze_slot_5'' \<and>
   list_ex (\<lambda>s. slot_name s = repl_slot_name (MyDatabaseId ex_env))
       (slots (snd (ReplicationSlotRelease
                     (other_backend (snd (setup_decoding ex_env 16384 ex_world)))))) \<and>
   setup_decoding ex_env 16500 (other_backend (snd (setup_decoding ex_env 16384 ex_world))) =
     (Inl (Error ERRCODE_DUPLICATE_OBJECT ''replication slot already exists''),
      snd (ReplicationSlotRelease (other_backend (snd (setup_decoding ex_env 16384 ex_world))))) \<and>
   fst (setup_decoding ex_env_other_database 16384
          (other_backend (snd (setup_decoding ex_env 16384 ex_world)))) \<noteq>
     Inl (Error ERRCODE_DUPLICATE_OBJECT ''replication slot already exists'') \<and>
   fst (setup_decoding ex_env_unprivileged 16500
          (other_backend (snd (setup_decoding ex_env 16384 ex_world)))) =
     Inl (Error ERRCODE_INSUFFICIENT_PRIVILEGE
            ''must be superuser or replication role to use replication slots'')"
proof -
  have p: "superuser ex_env \<or> has_rolreplication ex_env"
    "superuser ex_env_other_database \<or> has_rolreplication ex_env_other_database"
    and q: "CheckLogicalDecodingRequirements ex_env = None"
    "CheckLogicalDecodingRequirements ex_env_other_database = None"
    and r: "\<forall>tr. call_error ex_env CreateInitDecodingContext tr \<noteq>
              Some (Error ERRCODE_DUPLICATE_OBJECT ''replication slot already exists'')"
    "\<forall>tr. call_error ex_env_other_database CreateInitDecodingContext tr \<noteq>
              Some (Error ERRCODE_DUPLICATE_OBJECT ''replication slot already exists'')"
    and u: "\<not> superuser ex_env_unprivileged \<and> \<not> has_rolreplication ex_env_unprivileged"
    by (simp_all add: ex_env_def ex_env_other_database_def ex_env_unprivileged_def)
  have free: "\<not> list_ex (\<lambda>s. slot_name s = repl_slot_name (MyDatabaseId ex_env))
       (slots (snd (ReplicationSlotRelease ex_world)))"
    "length (slots (snd (ReplicationSlotRelease ex_world))) < max_replication_slots ex_env"
    by (simp_all add: ex_world_def ex_env_def ReplicationSlotRelease_def)
  have name: "repl_slot_name (MyDatabaseId ex_env) = ''pg_squeeze_slot_5''"
    by code_simp
  have taken: "list_ex (\<lambda>s. slot_name s = repl_slot_name (MyDatabaseId ex_env))
       (slots (snd (ReplicationSlotRelease
                     (other_backend (snd (setup_decoding ex_env 16384 ex_world))))))"
    by code_simp
  have other: "\<not> list_ex (\<lambda>s. slot_name s = repl_slot_name (MyDatabaseId ex_env_other_database))
       (slots (snd (ReplicationSlotRelease
                     (other_backend (snd (setup_decoding ex_env 16384 ex_world))))))"
    by code_simp
  from setup_decoding_slot_per_database [of ex_env 16384 ex_world 16384 5 5]
       setup_decoding_slot_per_database
         [of ex_env 16500 "other_backend (snd (setup_decoding ex_env 16384 ex_world))" 16500 5 5]
       setup_decoding_slot_per_database
         [of ex_env_other_database 16384
             "other_backend (snd (setup_decoding ex_env 16384 ex_world))" 16384 5 5]
       setup_decoding_slot_per_database
         [of ex_env_unprivileged 16500
             "other_backend (snd (setup_decoding ex_env 16384 ex_world))" 16500 5 5]
       p q r u free name taken other
  show ?thesis by simp
qed

section \<open>The index-to-tablespace mappings\<close>

lemma find_index_oid_unknown:
  "indname \<notin> set (index_names cs) \<Longrightarrow> find_index_oid cs indname = InvalidOid"
proof -
  assume "indname \<notin> set (index_names cs)"
  then have "find (\<lambda>ind_cat. ind_relname ind_cat = indname) (take (relninds cs) (indexes cs)) = None"
    by (auto simp: index_names_def find_None_iff)
  then show ?thesis by (simp add: find_index_oid_def)
qed

lemma resolve_mappings_rejects:
  "list_ex (\<lambda>(indname, tbspname). indname \<notin> set (index_names cs)) entries \<or>
   \<not> distinct (map fst entries) \<or>
   list_ex (\<lambda>(indname, tbspname). find_index_oid cs indname \<in> it_index ` set acc) entries
   \<Longrightarrow> \<exists>err. resolve_mappings e cs entries acc = Inl err \<and> is_invalid_configuration err"
proof (induction entries arbitrary: acc)
  case Nil
  then show ?case by simp
next
  case (Cons entry rest)
  obtain indname tbspname where entry: "entry = (indname, tbspname)" by (cases entry)
  let ?oid = "find_index_oid cs indname"
  show ?case
  proof (cases "\<not> OidIsValid ?oid \<or> ?oid \<in> it_index ` set acc \<or>
                get_tablespace_oid e tbspname = None")
    case True
    then show ?thesis
      by (auto simp: entry Let_def list_ex_iff split: option.splits)
  next
    case False
    then obtain tbsp_oid where ts: "get_tablespace_oid e tbspname = Some tbsp_oid"
      and valid: "OidIsValid ?oid" and fresh: "?oid \<notin> it_index ` set acc"
      by auto
    let ?acc = "acc @ [\<lparr>it_index = ?oid, it_tablespace = tbsp_oid\<rparr>]"
    have step: "resolve_mappings e cs (entry # rest) acc = resolve_mappings e cs rest ?acc"
    proof -
      from fresh have "\<not> list_ex (\<lambda>ind_ts. it_index ind_ts = ?oid) acc"
        by (metis (mono_tags, lifting) image_eqI list_ex_iff)
      with ts valid show ?thesis
        by (simp add: entry Let_def)
    qed
    have known: "indname \<in> set (index_names cs)"
      using valid find_index_oid_unknown [where cs = cs and indname = indname]
      by (auto simp: OidIsValid_def)
    from Cons.prems have
      "list_ex (\<lambda>(indname, tbspname). indname \<notin> set (index_names cs)) rest \<or>
       \<not> distinct (map fst rest) \<or>
       list_ex (\<lambda>(indname, tbspname). find_index_oid cs indname \<in> it_index ` set ?acc) rest"
      using known fresh by (fastforce simp: entry list_ex_iff)
    from Cons.IH [OF this] step show ?thesis by simp
  qed
qed

lemma resolve_index_tablepaces_rejects:
  "names_unknown_index cs a \<or> names_index_twice a \<Longrightarrow>
   \<exists>err. resolve_index_tablepaces e tbsp_info cs a = Inl err \<and> is_invalid_configuration err"
proof -
  assume bad: "names_unknown_index cs a \<or> names_index_twice a"
  then obtain err where
    "resolve_mappings e cs (mapping_entries (arr_data a)) (tbsp_indexes tbsp_info) = Inl err"
    "is_invalid_configuration err"
    using resolve_mappings_rejects [of cs "mapping_entries (arr_data a)" "tbsp_indexes tbsp_info" e]
    by (auto simp: names_unknown_index_def names_index_twice_def)
  then show ?thesis
    by (auto simp: resolve_index_tablepaces_def)
qed

lemma squeeze_table_checks_calls:
  "squeeze_table_checks e relschema rel_name w = (r, w1) \<Longrightarrow>
   slots w1 = slots w \<and> MyReplicationSlot w1 = MyReplicationSlot w \<and>
   (\<exists>ext. trace w1 = trace w @ ext \<and> list_all is_open_or_close ext)"
  by (auto simp: squeeze_table_checks_def heap_openrv_def check_prerequisites_def and_then_def
        lift_def did_def ok_def ereport_def
        split: sum.splits option.splits if_splits prod.splits)

lemma squeeze_table_tablespaces_rejects:
  "arg_ind_tbsp args = Some ind_tbsp \<Longrightarrow>
   names_unknown_index (cat_state src) ind_tbsp \<or> names_index_twice ind_tbsp \<Longrightarrow>
   \<exists>err. squeeze_table_tablespaces e args src w1 = (Inl err, w1) \<and> is_invalid_configuration err"
proof -
  assume a: "arg_ind_tbsp args = Some ind_tbsp"
    and bad: "names_unknown_index (cat_state src) ind_tbsp \<or> names_index_twice ind_tbsp"
  have r: "\<exists>err. resolve_index_tablepaces e \<lparr>tbsp_table = table, tbsp_indexes = []\<rparr>
                    (cat_state src) ind_tbsp = Inl err \<and> is_invalid_configuration err"
    for table
    using resolve_index_tablepaces_rejects [OF bad] by blast
  show ?thesis
  proof (cases "arg_tbspname args")
    case None
    with a r [of "reltablespace (form_class (cat_state src))"] show ?thesis
      by (auto simp: squeeze_table_tablespaces_def and_then_def ok_def lift_def)
  next
    case (Some tbspname)
    show ?thesis
    proof (cases "get_tablespace_oid e tbspname")
      case None
      with Some show ?thesis
        by (simp add: squeeze_table_tablespaces_def and_then_def ereport_def)
    next
      case (Some tbsp_oid)
      with \<open>arg_tbspname args = Some tbspname\<close> a r [of tbsp_oid] show ?thesis
        by (auto simp: squeeze_table_tablespaces_def and_then_def ok_def lift_def)
    qed
  qed
qed

text \<open>
  Claim C8. Take any call of \<open>squeeze_table\<close> with an array of index-to-tablespace
  mappings whose checks of the source table pass, so that the catalog state (with the
  index set) is saved. When a mapping names an index that is not in the saved index set,
  or two mappings name the same index, \<open>squeeze_table\<close> fails with an error of the
  tablespace arguments, and it does so in the world the checks left: the slots are the
  ones it started with and the only calls made are the opening and closing of the source
  relation, so no decoding context and no transient relation exists yet.
\<close>

theorem squeeze_table_rejects_bad_mappings:
  "arg_relschema args = Some relschema \<Longrightarrow> arg_relname args = Some rel_name \<Longrightarrow>
   arg_ind_tbsp args = Some ind_tbsp \<Longrightarrow>
   squeeze_table_checks e relschema rel_name w = (Inr src, w1) \<Longrightarrow>
   names_unknown_index (cat_state src) ind_tbsp \<or> names_index_twice ind_tbsp \<Longrightarrow>
   \<exists>err. squeeze_table e args w = (Inl err, w1) \<and> is_invalid_configuration err \<and>
         slots w1 = slots w \<and> MyReplicationSlot w1 = MyReplicationSlot w \<and>
         (\<exists>ext. trace w1 = trace w @ ext \<and> list_all is_open_or_close ext)"
proof -
  assume args: "arg_relschema args = Some relschema" "arg_relname args = Some rel_name"
    and a: "arg_ind_tbsp args = Some ind_tbsp"
    and checks: "squeeze_table_checks e relschema rel_name w = (Inr src, w1)"
    and bad: "names_unknown_index (cat_state src) ind_tbsp \<or> names_index_twice ind_tbsp"
  from squeeze_table_tablespaces_rejects [OF a bad] obtain err where
    err: "squeeze_table_tablespaces e args src w1 = (Inl err, w1)" "is_invalid_configuration err"
    by blast
  have "squeeze_table e args w = (Inl err, w1)"
    using args checks err(1) by (simp add: squeeze_table_def and_then_def)
  with err(2) squeeze_table_checks_calls [OF checks] show ?thesis by blast
qed

theorem squeeze_table_rejects_bad_mappings_witness:
  "squeeze_table_checks ex_env ''public'' ''t'' ex_world = (Inr ex_source, ex_world_checked) \<and>
   names_index_twice ex_mappings_twice \<and>
   names_unknown_index (cat_state ex_source) ex_mappings_unknown \<and>
   (\<exists>err. squeeze_table ex_env (ex_args\<lparr>arg_ind_tbsp := Some ex_mappings_twice\<rparr>) ex_world =
            (Inl err, ex_world_checked) \<and> is_invalid_configuration err) \<and>
   (\<exists>err. squeeze_table ex_env (ex_args\<lparr>arg_ind_tbsp := Some ex_mappings_unknown\<rparr>) ex_world =
            (Inl err, ex_world_checked) \<and> is_invalid_configuration err)"
proof -
  have checks: "squeeze_table_checks ex_env ''public'' ''t'' ex_world =
                (Inr ex_source, ex_world_checked)"
    by code_simp
  have twice: "names_index_twice ex_mappings_twice"
    by code_simp
  have unknown: "names_unknown_index (cat_state ex_source) ex_mappings_unknown"
    by code_simp
  have args: "arg_relschema (ex_args\<lparr>arg_ind_tbsp := Some a\<rparr>) = Some ''public''"
    "arg_relname (ex_args\<lparr>arg_ind_tbsp := Some a\<rparr>) = Some ''t''"
    "arg_ind_tbsp (ex_args\<lparr>arg_ind_tbsp := Some a\<rparr>) = Some a" for a
    by (simp_all add: ex_args_def)
  from squeeze_table_rejects_bad_mappings [OF args checks disjI2, OF twice]
       squeeze_table_rejects_bad_mappings [OF args checks disjI1, OF unknown]
       checks twice unknown
  show ?thesis by blast
qed

section \<open>What the stages of squeeze\_table emit\<close>

named_theorems emits_intros

lemma emits_only_ok [emits_intros]: "emits_only P (ok x)"
  by (simp add: emits_only_def ok_def)

lemma emits_only_ereport [emits_intros]: "emits_only P (ereport err)"
  by (simp add: emits_only_def ereport_def)

lemma emits_only_lift [emits_intros]: "emits_only P (lift f)"
  by (simp add: emits_only_def lift_def)

lemma emits_only_did [emits_intros]: "P c \<Longrightarrow> emits_only P (did c)"
  by (auto simp: emits_only_def did_def)

lemma emits_only_pg_call [emits_intros]: "P c \<Longrightarrow> emits_only P (pg_call e c)"
  by (auto simp: emits_only_def pg_call_def did_def split: option.splits)

lemma emits_only_and_then [emits_intros]:
  assumes m: "emits_only P m" and f: "\<And>x. emits_only P (f x)"
  shows "emits_only P (and_then m f)"
  unfolding emits_only_def
proof (intro allI impI)
  fix w r w'
  assume run: "and_then m f w = (r, w')"
  obtain r1 w1 where mw: "m w = (r1, w1)" by (cases "m w")
  from m mw obtain ext1 where e1: "trace w1 = trace w @ ext1" "list_all P ext1"
    unfolding emits_only_def by blast
  show "\<exists>ext. trace w' = trace w @ ext \<and> list_all P ext"
  proof (cases r1)
    case (Inl err)
    with run mw have "w' = w1" by (simp add: and_then_def)
    with e1 show ?thesis by blast
  next
    case (Inr x)
    with run mw have "f x w1 = (r, w')" by (simp add: and_then_def)
    with f [of x] obtain ext2 where "trace w' = trace w1 @ ext2" "list_all P ext2"
      unfolding emits_only_def by blast
    with e1 show ?thesis by (intro exI [of _ "ext1 @ ext2"]) simp
  qed
qed

lemma emits_only_if [emits_intros]:
  "(b \<Longrightarrow> emits_only P m1) \<Longrightarrow> (\<not> b \<Longrightarrow> emits_only P m2) \<Longrightarrow> emits_only P (if b then m1 else m2)"
  by simp

lemma emits_only_case_prod [emits_intros]:
  "(\<And>a b. emits_only P (f a b)) \<Longrightarrow> emits_only P (case x of (a, b) \<Rightarrow> f a b)"
  by (cases x) simp

lemma emits_only_case_option [emits_intros]:
  "emits_only P m1 \<Longrightarrow> (\<And>y. emits_only P (f y)) \<Longrightarrow>
   emits_only P (case x of None \<Rightarrow> m1 | Some y \<Rightarrow> f y)"
  by (cases x) simp_all

lemma emits_only_ReplicationSlotRelease [emits_intros]: "emits_only P ReplicationSlotRelease"
  by (auto simp: emits_only_def ReplicationSlotRelease_def split: option.splits)

lemma emits_only_ReplicationSlotCreate [emits_intros]:
  "emits_only P (ReplicationSlotCreate e name persistency)"
  by (auto simp: emits_only_def ReplicationSlotCreate_def split: if_splits)

lemma emits_only_release_if [emits_intros]:
  "emits_only P (\<lambda>w. if MyReplicationSlot w \<noteq> None then ReplicationSlotRelease w else ok () w)"
  by (auto simp: emits_only_def ReplicationSlotRelease_def ok_def split: option.splits)

lemma emits_only_setup_decoding [emits_intros]:
  "P CreateInitDecodingContext \<Longrightarrow> emits_only P (setup_decoding e rel)"
  unfolding setup_decoding_def by (intro emits_intros; simp)

lemma emits_only_squeeze_table_load:
  "emits_only (\<lambda>c. \<not> changes_storage c) (squeeze_table_load e src tbsp_info)"
  unfolding squeeze_table_load_def Let_def create_transient_table_def build_identity_key_def
    check_catalog_changes_now_def process_concurrent_changes_def
  by (intro emits_intros; simp)

lemma emits_only_squeeze_table_checks:
  "emits_only (\<lambda>c. \<not> changes_storage c) (squeeze_table_checks e relschema rel_name)"
  unfolding squeeze_table_checks_def heap_openrv_def check_prerequisites_def
  by (intro emits_intros; simp)

lemma emits_only_squeeze_table_tablespaces:
  "emits_only (\<lambda>c. \<not> changes_storage c) (squeeze_table_tablespaces e args src)"
  unfolding squeeze_table_tablespaces_def
  by (intro emits_intros; simp)

section \<open>The final stage\<close>

subsection \<open>Locks\<close>

lemma lock_count_Nil [simp]: "lock_count [] r m = 0"
  by (simp add: lock_count_def)

lemma lock_count_Cons [simp]: "lock_count (c # tr) r m = lock_delta r m c + lock_count tr r m"
  by (simp add: lock_count_def)

lemma lock_count_append [simp]: "lock_count (a @ b) r m = lock_count a r m + lock_count b r m"
  by (simp add: lock_count_def)

lemma lock_count_locks:
  "lock_count (map (\<lambda>ind. LockRelationOid ind AccessExclusiveLock) inds) r m =
   (if m = AccessExclusiveLock then int (count_list inds r) else 0)"
  by (induction inds) auto

lemma lock_count_unlocks:
  "lock_count (map (\<lambda>ind. UnlockRelationOid ind AccessExclusiveLock) inds) r m =
   (if m = AccessExclusiveLock then - int (count_list inds r) else 0)"
  by (induction inds) auto

lemma lock_count_failed_attempt [simp]: "lock_count (failed_attempt e rel inds tr) r m = 0"
  by (simp add: failed_attempt_def Let_def lock_count_locks lock_count_unlocks)

lemma lock_count_failed_attempts [simp]: "lock_count (failed_attempts e rel inds n tr) r m = 0"
  by (induction n arbitrary: tr) simp_all

lemma failed_attempt_storage: "list_all (\<lambda>c. \<not> changes_storage c) (failed_attempt e rel inds tr)"
  by (simp add: failed_attempt_def Let_def list_all_iff image_iff) auto

lemma failed_attempts_storage:
  "list_all (\<lambda>c. \<not> changes_storage c) (failed_attempts e rel inds n tr)"
  by (induction n arbitrary: tr) (simp_all add: failed_attempt_storage)

lemma failed_attempt_bounded_drains:
  "length (filter is_bounded_drain (failed_attempt e rel inds tr)) = 1"
  by (simp add: failed_attempt_def Let_def filter_map o_def)

lemma failed_attempts_bounded_drains:
  "length (filter is_bounded_drain (failed_attempts e rel inds n tr)) = n"
  by (induction n arbitrary: tr) (simp_all add: failed_attempt_bounded_drains)

lemma failed_attempt_snoc:
  "failed_attempt e rel inds tr =
     (LockRelationOid rel AccessExclusiveLock #
      map (\<lambda>ind. LockRelationOid ind AccessExclusiveLock) inds @
      [XLogFlush,
       ProcessConcurrentChanges AccessExclusiveLock
         (Some (xlock_deadline
                  (gettimeofday e (tr @ LockRelationOid rel AccessExclusiveLock #
                     map (\<lambda>ind. LockRelationOid ind AccessExclusiveLock) inds))
                  (squeeze_max_xlock_time e)))] @
      map (\<lambda>ind. UnlockRelationOid ind AccessExclusiveLock) inds @
      [UnlockRelationOid rel AccessExclusiveLock]) @
     [ProcessConcurrentChanges AccessExclusiveLock None]"
  by (simp add: failed_attempt_def Let_def)

lemma failed_attempt_last:
  "last (failed_attempt e rel inds tr) = ProcessConcurrentChanges AccessExclusiveLock None"
  unfolding failed_attempt_snoc by (rule last_snoc)

lemma lock_count_before_last_drain:
  "lock_count (butlast (failed_attempt e rel inds tr)) r m = 0"
  unfolding failed_attempt_snoc butlast_snoc
  by (simp add: lock_count_locks lock_count_unlocks)

text \<open>The deadline is not later than the start time plus \<^verbatim>\<open>squeeze.max_xlock_time\<close>.\<close>

lemma xlock_deadline_within:
  assumes "0 \<le> max_xlock_time"
  shows "timeval_usecs (xlock_deadline t_start max_xlock_time) \<le>
         timeval_usecs t_start + 1000 * max_xlock_time"
proof -
  define usec where "usec = tv_usec t_start + 1000 * (max_xlock_time mod 1000)"
  have "timeval_usecs (xlock_deadline t_start max_xlock_time) =
        tv_sec t_start * USECS_PER_SEC + (usec div USECS_PER_SEC * USECS_PER_SEC +
          usec mod USECS_PER_SEC)"
    by (simp add: timeval_usecs_def xlock_deadline_def Let_def usec_def algebra_simps)
  also have "\<dots> = tv_sec t_start * USECS_PER_SEC + usec" by simp
  also from assms have "\<dots> \<le> timeval_usecs t_start + 1000 * max_xlock_time"
    by (simp add: timeval_usecs_def usec_def zmod_le_nonneg_dividend)
  finally show ?thesis .
qed

subsection \<open>One attempt of the final stage\<close>

lemma unlock_indexes_eq:
  "unlock_indexes inds w =
     (Inr (), w\<lparr>trace := trace w @ map (\<lambda>ind. UnlockRelationOid ind AccessExclusiveLock) inds\<rparr>)"
  by (induction inds arbitrary: w) (simp_all add: ok_def and_then_def did_def)

lemma lock_indexes_Inr:
  "lock_indexes e inds w = (Inr u, w') \<Longrightarrow>
   w' = w\<lparr>trace := trace w @ map (\<lambda>ind. LockRelationOid ind AccessExclusiveLock) inds\<rparr>"
proof (induction inds arbitrary: w)
  case Nil
  then show ?case by (simp add: ok_def)
next
  case (Cons ind inds)
  from Cons.prems
  have "lock_indexes e inds (w\<lparr>trace := trace w @ [LockRelationOid ind AccessExclusiveLock]\<rparr>) =
        (Inr u, w')"
    by (auto simp: and_then_def pg_call_def did_def split: option.splits)
  from Cons.IH [OF this] show ?case by simp
qed

lemma lock_indexes_eq:
  "\<forall>r tr. call_error e (LockRelationOid r AccessExclusiveLock) tr = None \<Longrightarrow>
   lock_indexes e inds w =
     (Inr (), w\<lparr>trace := trace w @ map (\<lambda>ind. LockRelationOid ind AccessExclusiveLock) inds\<rparr>)"
  by (induction inds arbitrary: w) (simp_all add: ok_def and_then_def pg_call_def did_def)

lemma perform_final_merge_gives_up:
  assumes "0 < squeeze_max_xlock_time e"
    and "\<forall>r tr. call_error e (LockRelationOid r AccessExclusiveLock) tr = None"
    and "\<forall>tr. call_error e XLogFlush tr = None"
    and "\<forall>tr. check_catalog_changes (catalog_now e tr) cs NoLock = Inr ()"
    and "\<forall>tr t_end. timeval_usecs t_end \<le>
             timeval_usecs (gettimeofday e tr) + 1000 * squeeze_max_xlock_time e \<longrightarrow>
           process_concurrent_changes_result e AccessExclusiveLock (Some t_end)
             (tr @ [XLogFlush]) = Inr False"
    and "\<forall>tr. process_concurrent_changes_result e AccessExclusiveLock None tr = Inr (drained tr)"
  shows "perform_final_merge e rel inds cs w =
           (Inr False, w\<lparr>trace := trace w @ failed_attempt e rel inds (trace w)\<rparr>)"
proof -
  define locked where
    "locked = LockRelationOid rel AccessExclusiveLock #
              map (\<lambda>ind. LockRelationOid ind AccessExclusiveLock) inds"
  from assms(1) have "0 \<le> squeeze_max_xlock_time e" by simp
  from xlock_deadline_within [OF this] assms(5)
  have "process_concurrent_changes_result e AccessExclusiveLock
          (Some (xlock_deadline (gettimeofday e (trace w @ locked)) (squeeze_max_xlock_time e)))
          ((trace w @ locked) @ [XLogFlush]) = Inr False"
    by blast
  with assms(1-4,6) show ?thesis
    by (simp add: perform_final_merge_def and_then_def pg_call_def did_def lift_def ok_def
          lock_indexes_eq unlock_indexes_eq process_concurrent_changes_def
          check_catalog_changes_now_def failed_attempt_def Let_def locked_def)
qed

lemma final_merge_attempts_give_up:
  assumes "0 < squeeze_max_xlock_time e"
    and "\<forall>r tr. call_error e (LockRelationOid r AccessExclusiveLock) tr = None"
    and "\<forall>tr. call_error e XLogFlush tr = None"
    and "\<forall>tr. check_catalog_changes (catalog_now e tr) cs NoLock = Inr ()"
    and "\<forall>tr t_end. timeval_usecs t_end \<le>
             timeval_usecs (gettimeofday e tr) + 1000 * squeeze_max_xlock_time e \<longrightarrow>
           process_concurrent_changes_result e AccessExclusiveLock (Some t_end)
             (tr @ [XLogFlush]) = Inr False"
    and "\<forall>tr. process_concurrent_changes_result e AccessExclusiveLock None tr = Inr (drained tr)"
  shows "final_merge_attempts e n rel inds cs w =
           (Inr False, w\<lparr>trace := trace w @ failed_attempts e rel inds n (trace w)\<rparr>)"
proof (induction n arbitrary: w)
  case 0
  show ?case by (simp add: ok_def)
next
  case (Suc n)
  show ?case
    by (simp add: and_then_def perform_final_merge_gives_up [OF assms] Suc.IH)
qed

lemma perform_final_merge_result:
  assumes "perform_final_merge e rel inds cs w = (Inr success, w')"
  shows "\<exists>ext. trace w' = trace w @ ext \<and> list_all (\<lambda>c. \<not> changes_storage c) ext \<and>
           (\<forall>r. lock_count ext r AccessExclusiveLock =
                  (if success then (if r = rel then 1 else 0) + int (count_list inds r) else 0))"
  using assms
  by (auto simp: perform_final_merge_def and_then_def pg_call_def did_def lift_def ok_def
        unlock_indexes_eq process_concurrent_changes_def check_catalog_changes_now_def
        lock_count_locks lock_count_unlocks list_all_iff
        split: option.splits sum.splits prod.splits if_splits dest!: lock_indexes_Inr)

lemma final_merge_attempts_result:
  "final_merge_attempts e n rel inds cs w = (Inr success, w') \<Longrightarrow>
   \<exists>ext. trace w' = trace w @ ext \<and> list_all (\<lambda>c. \<not> changes_storage c) ext \<and>
     (\<forall>r. lock_count ext r AccessExclusiveLock =
            (if success then (if r = rel then 1 else 0) + int (count_list inds r) else 0))"
proof (induction n arbitrary: w)
  case 0
  then show ?case by (auto simp: ok_def)
next
  case (Suc n)
  from Suc.prems obtain b w1 where
    first: "perform_final_merge e rel inds cs w = (Inr b, w1)"
    and rest: "if b then success \<and> w' = w1
               else final_merge_attempts e n rel inds cs w1 = (Inr success, w')"
    by (auto simp: and_then_def ok_def split: sum.splits prod.splits if_splits)
  from perform_final_merge_result [OF first] obtain ext1 where
    ext1: "trace w1 = trace w @ ext1" "list_all (\<lambda>c. \<not> changes_storage c) ext1"
      "\<forall>r. lock_count ext1 r AccessExclusiveLock =
            (if b then (if r = rel then 1 else 0) + int (count_list inds r) else 0)"
    by blast
  show ?case
  proof (cases b)
    case True
    with rest ext1 show ?thesis by auto
  next
    case False
    with rest have "final_merge_attempts e n rel inds cs w1 = (Inr success, w')" by simp
    from Suc.IH [OF this] obtain ext2 where
      ext2: "trace w' = trace w1 @ ext2" "list_all (\<lambda>c. \<not> changes_storage c) ext2"
        "\<forall>r. lock_count ext2 r AccessExclusiveLock =
            (if success then (if r = rel then 1 else 0) + int (count_list inds r) else 0)"
      by blast
    from ext1 ext2 False show ?thesis
      by (intro exI [of _ "ext1 @ ext2"]) simp
  qed
qed

lemma swap_index_files_Inr:
  "swap_index_files e pairs w = (Inr u, w') \<Longrightarrow>
   w' = w\<lparr>trace := trace w @ map (\<lambda>(s, d). SwapRelationFiles s d) pairs\<rparr>"
proof (induction pairs arbitrary: w)
  case Nil
  then show ?case by (simp add: ok_def)
next
  case (Cons p pairs)
  obtain s d where p: "p = (s, d)" by (cases p)
  from Cons.prems
  have "swap_index_files e pairs (w\<lparr>trace := trace w @ [SwapRelationFiles s d]\<rparr>) = (Inr u, w')"
    by (auto simp: p and_then_def pg_call_def did_def split: option.splits)
  from Cons.IH [OF this] show ?case by (simp add: p)
qed

lemma lock_count_swaps [simp]:
  "lock_count (map (\<lambda>(s, d). SwapRelationFiles s d) pairs) r m = 0"
  by (induction pairs) auto

lemma ReplicationSlotRelease_trace:
  "ReplicationSlotRelease w = (r, w') \<Longrightarrow> trace w' = trace w"
  by (auto simp: ReplicationSlotRelease_def split: option.splits)

lemma squeeze_table_load_example:
  "squeeze_table_load ex_env ex_source ex_tablespaces ex_world_checked =
     (Inr ex_transient, ex_world_loaded)"
  by code_simp

text \<open>The deadline takes the milliseconds below one second of
  \<^verbatim>\<open>squeeze.max_xlock_time\<close> only: whole seconds do not move it.\<close>

lemma xlock_deadline_whole_seconds:
  "xlock_deadline t_start (1000 * seconds + ms) = xlock_deadline t_start ms"
  by (simp add: xlock_deadline_def)

lemma failed_attempt_example:
  "failed_attempt ex_env_busy 16384 [16390] tr =
     [LockRelationOid 16384 AccessExclusiveLock, LockRelationOid 16390 AccessExclusiveLock,
      XLogFlush,
      ProcessConcurrentChanges AccessExclusiveLock (Some \<lparr>tv_sec = 1000, tv_usec = 750000\<rparr>),
      UnlockRelationOid 16390 AccessExclusiveLock, UnlockRelationOid 16384 AccessExclusiveLock,
      ProcessConcurrentChanges AccessExclusiveLock None]"
  by (simp add: failed_attempt_def ex_env_busy_def ex_env_def xlock_deadline_def USECS_PER_SEC_def)

text \<open>
  Claim C2, as amended. Let \<^verbatim>\<open>squeeze.max_xlock_time\<close> be positive and let the drain
  under the exclusive lock take longer than that: begun right after the flush, it is not
  through by any deadline up to the time at which the locks were obtained plus
  \<^verbatim>\<open>squeeze.max_xlock_time\<close> (\<^verbatim>\<open>process_concurrent_changes\<close> returns false). Let the lock
  requests, the flush, the catalog check and the drains without a deadline not raise.
  Then every attempt of the final stage returns false, and its calls are the ones of
  \<open>failed_attempt\<close>, in this order: after the drain with the deadline it first
  releases the exclusive lock on every index and on the table, and then drains once
  more, without a deadline. That drain is the last call of the attempt, and every lock
  is held as often as before the attempt when it is made. A call of \<open>squeeze_table\<close>
  whose earlier stages have passed makes four such attempts (four drains with a
  deadline) and then fails with \<open>ERRCODE_OBJECT_IN_USE\<close>; every lock is held as often as
  before the final stage, and no call of the whole run swaps storage, renames a TOAST
  relation or deletes a relation.
\<close>

theorem final_merge_gives_up_after_four_attempts:
  assumes "0 < squeeze_max_xlock_time e"
    and "\<forall>r tr. call_error e (LockRelationOid r AccessExclusiveLock) tr = None"
    and "\<forall>tr. call_error e XLogFlush tr = None"
    and "\<forall>tr. check_catalog_changes (catalog_now e tr) (cat_state src) NoLock = Inr ()"
    and "\<forall>tr t_end. timeval_usecs t_end \<le>
             timeval_usecs (gettimeofday e tr) + 1000 * squeeze_max_xlock_time e \<longrightarrow>
           process_concurrent_changes_result e AccessExclusiveLock (Some t_end)
             (tr @ [XLogFlush]) = Inr False"
    and "\<forall>tr. process_concurrent_changes_result e AccessExclusiveLock None tr = Inr (drained tr)"
    and "arg_relschema args = Some relschema" and "arg_relname args = Some rel_name"
    and "squeeze_table_checks e relschema rel_name w = (Inr src, w1)"
    and "squeeze_table_tablespaces e args src w1 = (Inr tbsp_info, w2)"
    and "squeeze_table_load e src tbsp_info w2 = (Inr tr, w3)"
  shows "(\<forall>w0. perform_final_merge e (relid_src src) (indexes_src tr) (cat_state src) w0 =
            (Inr False,
             w0\<lparr>trace := trace w0 @
                   failed_attempt e (relid_src src) (indexes_src tr) (trace w0)\<rparr>)) \<and>
         (\<forall>tr0. last (failed_attempt e (relid_src src) (indexes_src tr) tr0) =
                  ProcessConcurrentChanges AccessExclusiveLock None \<and>
                (\<forall>r m. lock_count
                         (butlast (failed_attempt e (relid_src src) (indexes_src tr) tr0))
                         r m = 0)) \<and>
         squeeze_table e args w =
           (Inl (Error ERRCODE_OBJECT_IN_USE
                   ''squeeze_max_xlock_time prevented squeeze from completion''),
            w3\<lparr>trace := trace w3 @
                  failed_attempts e (relid_src src) (indexes_src tr) 4 (trace w3)\<rparr>) \<and>
         length (filter is_bounded_drain
                   (failed_attempts e (relid_src src) (indexes_src tr) 4 (trace w3))) = 4 \<and>
         (\<forall>r m. lock_count (trace w3 @
                    failed_attempts e (relid_src src) (indexes_src tr) 4 (trace w3)) r m =
                 lock_count (trace w3) r m) \<and>
         (\<exists>ext. trace w3 @ failed_attempts e (relid_src src) (indexes_src tr) 4 (trace w3) =
                  trace w @ ext \<and> list_all (\<lambda>c. \<not> changes_storage c) ext)"
proof -
  note answers = assms(1-6)
  have attempt: "perform_final_merge e (relid_src src) (indexes_src tr) (cat_state src) w0 =
            (Inr False,
             w0\<lparr>trace := trace w0 @
                   failed_attempt e (relid_src src) (indexes_src tr) (trace w0)\<rparr>)" for w0
    by (rule perform_final_merge_gives_up [OF answers])
  have loop: "final_merge_attempts e 4 (relid_src src) (indexes_src tr) (cat_state src) w3 =
            (Inr False,
             w3\<lparr>trace := trace w3 @
                   failed_attempts e (relid_src src) (indexes_src tr) 4 (trace w3)\<rparr>)"
    by (rule final_merge_attempts_give_up [OF answers])
  have finish: "squeeze_table_finish e src tr w3 =
           (Inl (Error ERRCODE_OBJECT_IN_USE
                   ''squeeze_max_xlock_time prevented squeeze from completion''),
            w3\<lparr>trace := trace w3 @
                  failed_attempts e (relid_src src) (indexes_src tr) 4 (trace w3)\<rparr>)"
    by (simp add: squeeze_table_finish_def and_then_def loop ereport_def)
  have whole: "squeeze_table e args w =
           (Inl (Error ERRCODE_OBJECT_IN_USE
                   ''squeeze_max_xlock_time prevented squeeze from completion''),
            w3\<lparr>trace := trace w3 @
                  failed_attempts e (relid_src src) (indexes_src tr) 4 (trace w3)\<rparr>)"
    using assms(7-11) finish by (simp add: squeeze_table_def and_then_def)
  from emits_only_squeeze_table_checks assms(9) obtain ext1 where
    e1: "trace w1 = trace w @ ext1" "list_all (\<lambda>c. \<not> changes_storage c) ext1"
    unfolding emits_only_def by blast
  from emits_only_squeeze_table_tablespaces assms(10) obtain ext2 where
    e2: "trace w2 = trace w1 @ ext2" "list_all (\<lambda>c. \<not> changes_storage c) ext2"
    unfolding emits_only_def by blast
  from emits_only_squeeze_table_load assms(11) obtain ext3 where
    e3: "trace w3 = trace w2 @ ext3" "list_all (\<lambda>c. \<not> changes_storage c) ext3"
    unfolding emits_only_def by blast
  have untouched:
    "\<exists>ext. trace w3 @ failed_attempts e (relid_src src) (indexes_src tr) 4 (trace w3) =
            trace w @ ext \<and> list_all (\<lambda>c. \<not> changes_storage c) ext"
    using e1 e2 e3 failed_attempts_storage [of e "relid_src src" "indexes_src tr" 4 "trace w3"]
    by (intro exI [of _ "ext1 @ ext2 @ ext3 @
          failed_attempts e (relid_src src) (indexes_src tr) 4 (trace w3)"]) simp
  from attempt whole untouched failed_attempts_bounded_drains failed_attempt_last
       lock_count_before_last_drain
  show ?thesis
    by simp
qed

text \<open>
  Claim C2 as stated fails on the order of the steps: in the session whose backlog takes
  two seconds to drain, with \<^verbatim>\<open>squeeze.max_xlock_time\<close> of 1500 ms, an attempt of the
  final stage returns false, and the drain without a deadline is its last call: the
  exclusive locks on the index 16390 and on the table 16384 have been released before
  it, none of them is held when it is made.
\<close>

theorem final_merge_drains_after_release_counterexample:
  "fst (perform_final_merge ex_env_busy 16384 [16390] ex_state ex_world_loaded) = Inr False \<and>
   drop (length (trace ex_world_loaded))
     (trace (snd (perform_final_merge ex_env_busy 16384 [16390] ex_state ex_world_loaded))) =
     [LockRelationOid 16384 AccessExclusiveLock, LockRelationOid 16390 AccessExclusiveLock,
      XLogFlush,
      ProcessConcurrentChanges AccessExclusiveLock (Some \<lparr>tv_sec = 1000, tv_usec = 750000\<rparr>),
      UnlockRelationOid 16390 AccessExclusiveLock, UnlockRelationOid 16384 AccessExclusiveLock,
      ProcessConcurrentChanges AccessExclusiveLock None] \<and>
   lock_count
     (butlast (trace (snd (perform_final_merge ex_env_busy 16384 [16390] ex_state
                             ex_world_loaded)))) 16384 AccessExclusiveLock = 0 \<and>
   lock_count
     (butlast (trace (snd (perform_final_merge ex_env_busy 16384 [16390] ex_state
                             ex_world_loaded)))) 16390 AccessExclusiveLock = 0"
  by code_simp

theorem final_merge_gives_up_after_four_attempts_witness:
  "0 < squeeze_max_xlock_time ex_env_busy \<and>
   process_concurrent_changes_result ex_env_busy AccessExclusiveLock
     (Some \<lparr>tv_sec = 1001, tv_usec = 750000\<rparr>) [XLogFlush] = Inr False \<and>
   process_concurrent_changes_result ex_env_busy AccessExclusiveLock
     (Some \<lparr>tv_sec = 1002, tv_usec = 250001\<rparr>) [XLogFlush] = Inr True \<and>
   squeeze_table_load ex_env_busy ex_source ex_tablespaces ex_world_checked =
     (Inr ex_transient, ex_world_loaded) \<and>
   perform_final_merge ex_env_busy 16384 [16390] ex_state ex_world_loaded =
     (Inr False,
      ex_world_loaded\<lparr>trace := trace ex_world_loaded @
        failed_attempt ex_env_busy 16384 [16390] (trace ex_world_loaded)\<rparr>) \<and>
   last (failed_attempt ex_env_busy 16384 [16390] (trace ex_world_loaded)) =
     ProcessConcurrentChanges AccessExclusiveLock None \<and>
   lock_count (butlast (failed_attempt ex_env_busy 16384 [16390] (trace ex_world_loaded)))
     16384 AccessExclusiveLock = 0 \<and>
   squeeze_table ex_env_busy ex_args ex_world =
     (Inl (Error ERRCODE_OBJECT_IN_USE
             ''squeeze_max_xlock_time prevented squeeze from completion''),
      ex_world_loaded\<lparr>trace := trace ex_world_loaded @
        failed_attempts ex_env_busy 16384 [16390] 4 (trace ex_world_loaded)\<rparr>)"
proof -
  have budget: "0 < squeeze_max_xlock_time ex_env_busy"
    by (simp add: ex_env_busy_def)
  have locks: "\<forall>r tr. call_error ex_env_busy (LockRelationOid r AccessExclusiveLock) tr = None"
    and flush: "\<forall>tr. call_error ex_env_busy XLogFlush tr = None"
    by (simp_all add: ex_env_busy_def ex_env_def)
  have "check_catalog_changes ex_catalog ex_state NoLock = Inr ()"
    by code_simp
  then have cat: "\<forall>tr. check_catalog_changes (catalog_now ex_env_busy tr) (cat_state ex_source)
                     NoLock = Inr ()"
    by (simp add: ex_env_busy_def ex_env_def ex_source_def)
  have timeout: "\<forall>tr t_end. timeval_usecs t_end \<le>
        timeval_usecs (gettimeofday ex_env_busy tr) + 1000 * squeeze_max_xlock_time ex_env_busy
        \<longrightarrow> process_concurrent_changes_result ex_env_busy AccessExclusiveLock (Some t_end)
              (tr @ [XLogFlush]) = Inr False"
    by (simp add: ex_env_busy_def ex_env_def timeval_usecs_def USECS_PER_SEC_def)
  have drain: "\<forall>tr. process_concurrent_changes_result ex_env_busy AccessExclusiveLock None tr =
                    Inr ((\<lambda>tr. True) tr)"
    by (simp add: ex_env_busy_def)
  have within: "process_concurrent_changes_result ex_env_busy AccessExclusiveLock
       (Some \<lparr>tv_sec = 1001, tv_usec = 750000\<rparr>) [XLogFlush] = Inr False"
    and later: "process_concurrent_changes_result ex_env_busy AccessExclusiveLock
       (Some \<lparr>tv_sec = 1002, tv_usec = 250001\<rparr>) [XLogFlush] = Inr True"
    by (simp_all add: ex_env_busy_def timeval_usecs_def USECS_PER_SEC_def)
  have args: "arg_relschema ex_args = Some ''public''" "arg_relname ex_args = Some ''t''"
    by (simp_all add: ex_args_def)
  have checks: "squeeze_table_checks ex_env_busy ''public'' ''t'' ex_world =
                (Inr ex_source, ex_world_checked)"
    by code_simp
  have tablespaces: "squeeze_table_tablespaces ex_env_busy ex_args ex_source ex_world_checked =
                (Inr ex_tablespaces, ex_world_checked)"
    by code_simp
  have load: "squeeze_table_load ex_env_busy ex_source ex_tablespaces ex_world_checked =
                (Inr ex_transient, ex_world_loaded)"
    by code_simp
  have src: "relid_src ex_source = 16384" "cat_state ex_source = ex_state"
    "indexes_src ex_transient = [16390]"
    by (simp_all add: ex_source_def ex_transient_def)
  from final_merge_gives_up_after_four_attempts
         [OF budget locks flush cat timeout drain args checks tablespaces load]
       budget within later load src
  show ?thesis by simp
qed

text \<open>
  Claim C7, as amended. When the last part of \<open>squeeze_table\<close> succeeds, its calls end
  with the swap of the storage of the table, the renaming of the TOAST relations, the
  swap of the storage of every index and, last, the deletion of the transient relation.
  At the deletion the exclusive lock on the source table is held at least once more than
  before the final stage: \<open>perform_final_merge\<close> has taken it and nothing has released
  it.
\<close>

theorem transient_dropped_under_exclusive_lock:
  "squeeze_table_finish e src tr w = (Inr (), w') \<Longrightarrow>
   \<exists>merge. trace w' =
       trace w @ merge @
       [DecodingCleanup, HeapClose (relid_dst tr) NoLock,
        SwapRelationFiles (relid_src src) (relid_dst tr),
        SwapToastNames (relid_src src) (toastrelid_dst tr) (relid_dst tr) (toastrelid_src src)] @
       map (\<lambda>(s, d). SwapRelationFiles s d) (zip (indexes_src tr) (indexes_dst tr)) @
       [PerformDeletion (relid_dst tr)] \<and>
     lock_count (trace w) (relid_src src) AccessExclusiveLock + 1 \<le>
       lock_count (butlast (trace w')) (relid_src src) AccessExclusiveLock"
proof -
  assume run: "squeeze_table_finish e src tr w = (Inr (), w')"
  then obtain w1 where
    loop: "final_merge_attempts e 4 (relid_src src) (indexes_src tr) (cat_state src) w =
             (Inr True, w1)"
    by (auto simp: squeeze_table_finish_def and_then_def ereport_def
          split: sum.splits prod.splits if_splits)
  from final_merge_attempts_result [OF loop] obtain merge where
    merge: "trace w1 = trace w @ merge"
      "lock_count merge (relid_src src) AccessExclusiveLock =
         1 + int (count_list (indexes_src tr) (relid_src src))"
    by auto
  from run loop obtain w2 u w3 where
    release: "ReplicationSlotRelease
                (w1\<lparr>trace := trace w1 @ [DecodingCleanup]\<rparr>) = (Inr u, w2)"
    and swaps: "swap_index_files e (zip (indexes_src tr) (indexes_dst tr))
                  (w2\<lparr>trace := trace w2 @
                     [HeapClose (relid_dst tr) NoLock,
                      SwapRelationFiles (relid_src src) (relid_dst tr),
                      SwapToastNames (relid_src src) (toastrelid_dst tr) (relid_dst tr)
                        (toastrelid_src src)]\<rparr>) = (Inr (), w3)"
    and last: "w' = w3\<lparr>trace := trace w3 @ [PerformDeletion (relid_dst tr)]\<rparr>"
    by (auto simp: squeeze_table_finish_def and_then_def pg_call_def did_def
          split: sum.splits prod.splits option.splits)
  from ReplicationSlotRelease_trace [OF release]
  have t2: "trace w2 = trace w @ merge @ [DecodingCleanup]"
    by (simp add: merge)
  from swap_index_files_Inr [OF swaps] t2 last
  have shape: "trace w' =
       trace w @ merge @
       [DecodingCleanup, HeapClose (relid_dst tr) NoLock,
        SwapRelationFiles (relid_src src) (relid_dst tr),
        SwapToastNames (relid_src src) (toastrelid_dst tr) (relid_dst tr) (toastrelid_src src)] @
       map (\<lambda>(s, d). SwapRelationFiles s d) (zip (indexes_src tr) (indexes_dst tr)) @
       [PerformDeletion (relid_dst tr)]"
    by simp
  then have "butlast (trace w') =
       trace w @ merge @
       [DecodingCleanup, HeapClose (relid_dst tr) NoLock,
        SwapRelationFiles (relid_src src) (relid_dst tr),
        SwapToastNames (relid_src src) (toastrelid_dst tr) (relid_dst tr) (toastrelid_src src)] @
       map (\<lambda>(s, d). SwapRelationFiles s d) (zip (indexes_src tr) (indexes_dst tr))"
    by (simp add: butlast_append)
  with merge(2) have "lock_count (trace w) (relid_src src) AccessExclusiveLock + 1 \<le>
       lock_count (butlast (trace w')) (relid_src src) AccessExclusiveLock"
    by simp
  with shape show ?thesis by blast
qed

theorem transient_dropped_under_exclusive_lock_witness:
  "squeeze_table_finish ex_env ex_source ex_transient ex_world_loaded = (Inr (), ex_world_done) \<and>
   lock_count (trace ex_world_loaded) (relid_src ex_source) AccessExclusiveLock + 1 \<le>
     lock_count (butlast (trace ex_world_done)) (relid_src ex_source) AccessExclusiveLock"
proof -
  have run: "squeeze_table_finish ex_env ex_source ex_transient ex_world_loaded =
             (Inr (), ex_world_done)"
    by code_simp
  from transient_dropped_under_exclusive_lock [OF run] run show ?thesis by blast
qed

text \<open>
  Claim C7 as stated fails: in the session in which nothing goes wrong the last call is
  the deletion of the transient relation 16400, and the exclusive lock on the source
  table 16384 is held (once) when it is made.
\<close>

theorem transient_dropped_outside_lock_counterexample:
  "fst (squeeze_table ex_env ex_args ex_world) = Inr () \<and>
   last (trace (snd (squeeze_table ex_env ex_args ex_world))) = PerformDeletion 16400 \<and>
   lock_count (butlast (trace (snd (squeeze_table ex_env ex_args ex_world)))) 16384
     AccessExclusiveLock = 1"
  by code_simp

section \<open>The identity index\<close>

text \<open>What the identity checks establish: the replica identity is neither \<^verbatim>\<open>'n'\<close> nor
  \<^verbatim>\<open>'f'\<close>, and with \<^verbatim>\<open>'d'\<close> the table has an identity index. Nothing is established for
  \<^verbatim>\<open>'i'\<close>.\<close>

lemma squeeze_table_checks_identity:
  "squeeze_table_checks e relschema rel_name w = (Inr src, w1) \<Longrightarrow>
   replident src \<noteq> REPLICA_IDENTITY_NOTHING \<and> replident src \<noteq> REPLICA_IDENTITY_FULL \<and>
   (replident src = REPLICA_IDENTITY_DEFAULT \<longrightarrow> OidIsValid (ident_idx_src src))"
  by (auto simp: squeeze_table_checks_def heap_openrv_def check_prerequisites_def and_then_def
        lift_def did_def ok_def ereport_def
        split: sum.splits option.splits if_splits prod.splits)

text \<open>
  Claim C4, at the input where the code departs from it: the replica identity of the
  table is an index (\<^verbatim>\<open>'i'\<close>) that has been dropped, so the table has no identity index.
  \<open>squeeze_table\<close> passes the identity checks, creates the replication slot and the
  decoding context, creates the transient relation, copies the table and builds the
  indexes, and fails only when \<open>build_identity_key\<close> opens the identity index.
\<close>

theorem squeeze_table_identity_index_dropped:
  "squeeze_table ex_env_identity_dropped ex_args ex_world =
     (Inl (Error ERRCODE_INTERNAL_ERROR ''could not open relation with OID %u''),
      \<lparr>trace = [HeapOpen 16384 AccessShareLock, HeapClose 16384 AccessShareLock,
                CreateInitDecodingContext, BuildHistoricSnapshot, HeapCreateWithCatalog 16400,
                HeapOpen 16384 AccessShareLock, HeapOpen 16400 NoLock,
                PerformInitialLoad 16384 16400, BuildTransientIndexes [16410]],
       slots = [\<lparr>slot_name = ''pg_squeeze_slot_5'', slot_persistency = RS_EPHEMERAL\<rparr>],
       MyReplicationSlot = Some ''pg_squeeze_slot_5''\<rparr>)"
  by code_simp

end
